theory Spec2Isabelle
  imports Main "HOL-Library.Word"
begin

section \<open>Go strings as byte sequences\<close>

text \<open>
  A Go string is a sequence of bytes; it is modelled as a \<open>string\<close> (a list of 8-bit
  \<open>char\<close>s). Runes (Unicode code points) are natural numbers.
\<close>

definition byte :: "char \<Rightarrow> nat" where
  "byte c = of_char c"

definition isDigit :: "char \<Rightarrow> bool" where
  "isDigit c = (48 \<le> byte c \<and> byte c \<le> 57)"

text \<open>\<open>strings.HasPrefix\<close>.\<close>

definition HasPrefix :: "string \<Rightarrow> string \<Rightarrow> bool" where
  "HasPrefix s p = (take (length p) s = p)"

text \<open>
  \<open>strings.Split(s, sep)\<close> for a one-byte separator: the pieces between the separators,
  always at least one piece.
\<close>

fun Split :: "string \<Rightarrow> char \<Rightarrow> string list" where
  "Split [] c = [[]]"
| "Split (x # xs) c =
     (if x = c then [] # Split xs c
      else (case Split xs c of [] \<Rightarrow> [[x]] | y # ys \<Rightarrow> (x # y) # ys))"

text \<open>
  \<open>strconv.Atoi\<close> on a 64-bit platform: an optional sign, then one or more decimal
  digits, and the value must fit a signed 64-bit integer; anything else is an error
  (\<open>None\<close>).
\<close>

definition digitsValue :: "string \<Rightarrow> int" where
  "digitsValue ds = foldl (\<lambda>n c. n * 10 + (int (byte c) - 48)) 0 ds"

definition Atoi :: "string \<Rightarrow> int option" where
  "Atoi s =
     (let neg = (s \<noteq> [] \<and> hd s = CHR ''-'');
          ds = (if s \<noteq> [] \<and> (hd s = CHR ''-'' \<or> hd s = CHR ''+'') then tl s else s)
      in if ds = [] \<or> \<not> list_all isDigit ds then None
         else let n = (if neg then - digitsValue ds else digitsValue ds)
              in if - (2 ^ 63) \<le> n \<and> n < 2 ^ 63 then Some n else None)"

section \<open>Caller resolver: function-name reduction (logger.go)\<close>

text \<open>
  The loop of \<open>getFuncNameSlog\<close> walks \<open>arr\<close> from the last index down to 0; the model
  walks the reversed list. \<open>funcName\<close> is the accumulator of the source.
\<close>

fun getFuncNameSlog_loop :: "string list \<Rightarrow> string \<Rightarrow> string" where
  "getFuncNameSlog_loop [] funcName = funcName"
| "getFuncNameSlog_loop (x # xs) funcName =
     (if HasPrefix x ''func'' \<or> Atoi x \<noteq> None
      then getFuncNameSlog_loop xs (''.'' @ x @ funcName)
      else x @ funcName)"

definition getFuncNameSlog :: "string \<Rightarrow> string" where
  "getFuncNameSlog pathFunc =
     (let arr = Split pathFunc CHR ''.''
      in if length arr = 0 then pathFunc
         else getFuncNameSlog_loop (rev arr) [])"

text \<open>The segments the loop absorbs: those the code tests for.\<close>

definition synthetic :: "string \<Rightarrow> bool" where
  "synthetic x = (HasPrefix x ''func'' \<or> Atoi x \<noteq> None)"

text \<open>
  The reduction in the words of the specification: a segment is absorbed when it is
  numeric-only (one or more decimal digits and nothing else) or starts with \<open>func\<close>; the
  first other segment from the end is the head of the display name.
\<close>

definition numericOnly :: "string \<Rightarrow> bool" where
  "numericOnly x = (x \<noteq> [] \<and> list_all isDigit x)"

definition synthetic_spec :: "string \<Rightarrow> bool" where
  "synthetic_spec x = (HasPrefix x ''func'' \<or> numericOnly x)"

definition dottedSuffix :: "string list \<Rightarrow> string" where
  "dottedSuffix segs = concat (map (\<lambda>x. ''.'' @ x) segs)"

definition reduction :: "(string \<Rightarrow> bool) \<Rightarrow> string \<Rightarrow> string" where
  "reduction absorbed s =
     (let segs = Split s CHR ''.'';
          suffix = rev (takeWhile absorbed (rev segs));
          rest = dropWhile absorbed (rev segs)
      in (case rest of [] \<Rightarrow> [] | h # _ \<Rightarrow> h) @ dottedSuffix suffix)"

definition reduction_spec :: "string \<Rightarrow> string" where
  "reduction_spec s = reduction synthetic_spec s"

section \<open>The Go standard library, as far as the handler calls it\<close>

text \<open>
  Library functions whose results depend on Unicode tables, on floating point or on the
  time zone database are parameters of the model: every theorem below holds for every
  choice of them.
  \<^item> \<open>isSpace\<close>, \<open>isPrint\<close>, \<open>isLetter\<close>: \<open>unicode.IsSpace\<close>, \<open>unicode.IsPrint\<close>
    (\<open>strconv.IsPrint\<close> is the same predicate), \<open>unicode.IsLetter\<close>;
  \<^item> \<open>formatFloat\<close>: \<open>strconv.AppendFloat(_, f, 'g', -1, 64)\<close> on the bits of \<open>f\<close>;
  \<^item> \<open>formatSeconds\<close>: \<open>strconv.FormatFloat(d.Seconds(), 'f', 4, 64)\<close> of a duration
    \<open>d\<close> in nanoseconds;
  \<^item> \<open>durationString\<close>, \<open>timeString\<close>: the \<open>String\<close> methods of \<open>time.Duration\<close> and
    \<open>time.Time\<close>;
  \<^item> \<open>appendFormat\<close>: \<open>time.Time.AppendFormat\<close> with a layout.
\<close>

record golib =
  isSpace :: "nat \<Rightarrow> bool"
  isPrint :: "nat \<Rightarrow> bool"
  isLetter :: "nat \<Rightarrow> bool"
  formatFloat :: "64 word \<Rightarrow> string"
  formatSeconds :: "int \<Rightarrow> string"
  durationString :: "int \<Rightarrow> string"
  timeString :: "int \<Rightarrow> string"
  appendFormat :: "int \<Rightarrow> string \<Rightarrow> string"

subsection \<open>unicode/utf8\<close>

definition RuneError :: nat where
  "RuneError = 0xFFFD"

definition RuneSelf :: nat where
  "RuneSelf = 0x80"

definition inRange :: "nat \<Rightarrow> nat \<Rightarrow> nat \<Rightarrow> bool" where
  "inRange lo hi b = (lo \<le> b \<and> b \<le> hi)"

text \<open>
  \<open>utf8.DecodeRuneInString\<close>: the first rune of the string and its width in bytes;
  \<open>(RuneError, 0)\<close> on the empty string and \<open>(RuneError, 1)\<close> on an invalid or truncated
  encoding (overlong forms and surrogates are invalid).
\<close>

definition DecodeRuneInString :: "string \<Rightarrow> nat \<times> nat" where
  "DecodeRuneInString s =
     (case s of
        [] \<Rightarrow> (RuneError, 0)
      | c0 # r \<Rightarrow>
          let b0 = byte c0 in
          if b0 < RuneSelf then (b0, 1)
          else if inRange 0xC2 0xDF b0 then
            (case r of
               c1 # _ \<Rightarrow>
                 if inRange 0x80 0xBF (byte c1)
                 then ((b0 mod 32) * 64 + byte c1 mod 64, 2)
                 else (RuneError, 1)
             | _ \<Rightarrow> (RuneError, 1))
          else if inRange 0xE0 0xEF b0 then
            (case r of
               c1 # c2 # _ \<Rightarrow>
                 if inRange (if b0 = 0xE0 then 0xA0 else 0x80) (if b0 = 0xED then 0x9F else 0xBF) (byte c1)
                    \<and> inRange 0x80 0xBF (byte c2)
                 then ((b0 mod 16) * 4096 + (byte c1 mod 64) * 64 + byte c2 mod 64, 3)
                 else (RuneError, 1)
             | _ \<Rightarrow> (RuneError, 1))
          else if inRange 0xF0 0xF4 b0 then
            (case r of
               c1 # c2 # c3 # _ \<Rightarrow>
                 if inRange (if b0 = 0xF0 then 0x90 else 0x80) (if b0 = 0xF4 then 0x8F else 0xBF) (byte c1)
                    \<and> inRange 0x80 0xBF (byte c2) \<and> inRange 0x80 0xBF (byte c3)
                 then ((b0 mod 8) * 262144 + (byte c1 mod 64) * 4096 + (byte c2 mod 64) * 64
                        + byte c3 mod 64, 4)
                 else (RuneError, 1)
             | _ \<Rightarrow> (RuneError, 1))
          else (RuneError, 1))"

lemma DecodeRuneInString_width: "s \<noteq> [] \<Longrightarrow> 1 \<le> snd (DecodeRuneInString s)"
  by (auto simp: DecodeRuneInString_def Let_def split: list.splits)

subsection \<open>The quoting predicate and its table (part\_000)\<close>

text \<open>
  \<open>safeSet\<close> is an array of 128 booleans; the entries the source sets to \<open>true\<close>, in the
  order of the source, are the bytes of \<open>safeTrue\<close>. The double quote (0x22) and the
  backslash (0x5C) are listed as \<open>false\<close>, and every entry that is not listed is \<open>false\<close>.
\<close>

definition safeTrue :: string where
  "safeTrue =
     '' !#$%&'' @ [CHR 0x27] @ ''()*+,-./0123456789:;<=>?@''
     @ ''ABCDEFGHIJKLMNOPQRSTUVWXYZ[]^_`''
     @ ''abcdefghijklmnopqrstuvwxyz{|}~'' @ [CHR 0x7F, CHR 0x1B]"

definition safeSet :: "char \<Rightarrow> bool" where
  "safeSet c = List.member safeTrue c"

function needsQuoting_from :: "golib \<Rightarrow> string \<Rightarrow> bool" where
  "needsQuoting_from L [] = False"
| "needsQuoting_from L (c # cs) =
     (if byte c < RuneSelf then
        (if c \<noteq> CHR 0x5C \<and> (c = CHR '' '' \<or> c = CHR ''='' \<or> \<not> safeSet c) then True
         else needsQuoting_from L cs)
      else
        (if fst (DecodeRuneInString (c # cs)) = RuneError
            \<or> isSpace L (fst (DecodeRuneInString (c # cs)))
            \<or> \<not> isPrint L (fst (DecodeRuneInString (c # cs)))
         then True
         else needsQuoting_from L (drop (snd (DecodeRuneInString (c # cs))) (c # cs))))"
  by pat_completeness auto
termination
proof (relation "measure (\<lambda>(L, s). length s)")
  show "wf (measure (\<lambda>(L, s). length s))" by simp
next
  fix L :: golib and c :: char and cs :: string
  show "((L, cs), (L, c # cs)) \<in> measure (\<lambda>(L, s). length s)" by simp
next
  fix L :: golib and c :: char and cs :: string
  have "1 \<le> snd (DecodeRuneInString (c # cs))"
    by (rule DecodeRuneInString_width) simp
  then show "((L, drop (snd (DecodeRuneInString (c # cs))) (c # cs)), (L, c # cs))
      \<in> measure (\<lambda>(L, s). length s)"
    by simp
qed

definition needsQuoting :: "golib \<Rightarrow> string \<Rightarrow> bool" where
  "needsQuoting L s = (if length s = 0 then True else needsQuoting_from L s)"

text \<open>
  The runes of a string, as a \<open>range\<close> loop over it yields them: each step decodes one
  rune; a byte that starts no valid encoding yields \<open>RuneError\<close> and is one step.
\<close>

function runes :: "string \<Rightarrow> nat list" where
  "runes [] = []"
| "runes (c # cs) =
     fst (DecodeRuneInString (c # cs))
     # runes (drop (snd (DecodeRuneInString (c # cs))) (c # cs))"
  by pat_completeness auto
termination
proof (relation "measure length")
  show "wf (measure length)" by simp
next
  fix c :: char and cs :: string
  have "1 \<le> snd (DecodeRuneInString (c # cs))"
    by (rule DecodeRuneInString_width) simp
  then show "(drop (snd (DecodeRuneInString (c # cs))) (c # cs), c # cs) \<in> measure length"
    by simp
qed

text \<open>
  When quoting is required, in the words of the specification: the string is empty,
  or it contains a space, an \<open>=\<close>, an ASCII character outside the safe set, or a
  code point that is a space or is not printable.
\<close>

definition forcesQuoting_spec :: "golib \<Rightarrow> nat \<Rightarrow> bool" where
  "forcesQuoting_spec L r =
     (if r < RuneSelf
      then char_of r = CHR '' '' \<or> char_of r = CHR ''='' \<or> \<not> safeSet (char_of r)
      else isSpace L r \<or> \<not> isPrint L r)"

definition quotingRequired_spec :: "golib \<Rightarrow> string \<Rightarrow> bool" where
  "quotingRequired_spec L s = (s = [] \<or> list_ex (forcesQuoting_spec L) (runes s))"

text \<open>
  The same with the two differences of the code: a backslash never forces quoting
  (although the table has \<open>false\<close> for it), and a rune that decodes to \<open>RuneError\<close>
  (U+FFFD: every invalid byte, and the replacement character itself) always does.
\<close>

definition forcesQuoting :: "golib \<Rightarrow> nat \<Rightarrow> bool" where
  "forcesQuoting L r =
     (if r < RuneSelf
      then char_of r \<noteq> CHR 0x5C
           \<and> (char_of r = CHR '' '' \<or> char_of r = CHR ''='' \<or> \<not> safeSet (char_of r))
      else r = RuneError \<or> isSpace L r \<or> \<not> isPrint L r)"

definition quotingRequired :: "golib \<Rightarrow> string \<Rightarrow> bool" where
  "quotingRequired L s = (s = [] \<or> list_ex (forcesQuoting L) (runes s))"

subsection \<open>strconv\<close>

definition lowerhex :: "nat \<Rightarrow> char" where
  "lowerhex n = ''0123456789abcdef'' ! (n mod 16)"

definition hexDigits :: "nat \<Rightarrow> nat \<Rightarrow> string" where
  "hexDigits k r = map (\<lambda>i. lowerhex (r div 16 ^ i)) (rev [0..<k])"

text \<open>
  \<open>appendEscapedRune\<close> of strconv for the double quote, neither ASCII-only nor
  graphic-only: \<open>r\<close> is the rune and \<open>bs\<close> its UTF-8 bytes
  (what \<open>utf8.AppendRune\<close> writes for a rune that was decoded from them).
\<close>

definition appendEscapedRune :: "golib \<Rightarrow> nat \<Rightarrow> string \<Rightarrow> string" where
  "appendEscapedRune L r bs =
     (if r = 0x22 \<or> r = 0x5C then [CHR 0x5C, char_of r]
      else if isPrint L r then bs
      else if r = 7 then [CHR 0x5C, CHR ''a'']
      else if r = 8 then [CHR 0x5C, CHR ''b'']
      else if r = 12 then [CHR 0x5C, CHR ''f'']
      else if r = 10 then [CHR 0x5C, CHR ''n'']
      else if r = 13 then [CHR 0x5C, CHR ''r'']
      else if r = 9 then [CHR 0x5C, CHR ''t'']
      else if r = 11 then [CHR 0x5C, CHR ''v'']
      else if r < 0x20 \<or> r = 0x7F then [CHR 0x5C, CHR ''x''] @ hexDigits 2 r
      else if r < 0x10000 then [CHR 0x5C, CHR ''u''] @ hexDigits 4 r
      else [CHR 0x5C, CHR ''U''] @ hexDigits 8 r)"

function quoteBody :: "golib \<Rightarrow> string \<Rightarrow> string" where
  "quoteBody L [] = []"
| "quoteBody L (c # cs) =
     (if byte c < RuneSelf then appendEscapedRune L (byte c) [c] @ quoteBody L cs
      else if snd (DecodeRuneInString (c # cs)) = 1
              \<and> fst (DecodeRuneInString (c # cs)) = RuneError
      then [CHR 0x5C, CHR ''x''] @ hexDigits 2 (byte c) @ quoteBody L cs
      else appendEscapedRune L (fst (DecodeRuneInString (c # cs)))
             (take (snd (DecodeRuneInString (c # cs))) (c # cs))
           @ quoteBody L (drop (snd (DecodeRuneInString (c # cs))) (c # cs)))"
  by pat_completeness auto
termination
proof (relation "measure (\<lambda>(L, s). length s)")
  show "wf (measure (\<lambda>(L, s). length s))" by simp
next
  fix L :: golib and c :: char and cs :: string
  show "((L, cs), (L, c # cs)) \<in> measure (\<lambda>(L, s). length s)" by simp
next
  fix L :: golib and c :: char and cs :: string
  show "((L, cs), (L, c # cs)) \<in> measure (\<lambda>(L, s). length s)" by simp
next
  fix L :: golib and c :: char and cs :: string
  have "1 \<le> snd (DecodeRuneInString (c # cs))"
    by (rule DecodeRuneInString_width) simp
  then show "((L, drop (snd (DecodeRuneInString (c # cs))) (c # cs)), (L, c # cs))
      \<in> measure (\<lambda>(L, s). length s)"
    by simp
qed

text \<open>\<open>strconv.Quote\<close> (and \<open>strconv.AppendQuote\<close>, which appends the same bytes).\<close>

definition Quote :: "golib \<Rightarrow> string \<Rightarrow> string" where
  "Quote L s = [CHR 0x22] @ quoteBody L s @ [CHR 0x22]"

text \<open>Decimal digits of a natural number, and \<open>strconv.Itoa\<close> / \<open>AppendInt(_, i, 10)\<close>.\<close>

definition digitChar :: "nat \<Rightarrow> char" where
  "digitChar n = ''0123456789'' ! (n mod 10)"

function natDigits :: "nat \<Rightarrow> string" where
  "natDigits n = (if n < 10 then [digitChar n]
                  else natDigits (n div 10) @ [digitChar (n mod 10)])"
  by pat_completeness auto
termination
  by (relation "measure id") auto

definition Itoa :: "int \<Rightarrow> string" where
  "Itoa i = (if i < 0 then ''-'' @ natDigits (nat (- i)) else natDigits (nat i))"

definition AppendBool :: "bool \<Rightarrow> string" where
  "AppendBool b = (if b then ''true'' else ''false'')"

subsection \<open>path and path/filepath (Unix)\<close>

text \<open>\<open>filepath.Split\<close>: the path up to and including the last slash, and the rest.\<close>

definition lastSlash :: "string \<Rightarrow> nat" where
  "lastSlash p = length p - length (takeWhile (\<lambda>c. c \<noteq> CHR ''/'') (rev p))"

definition filepath_Split :: "string \<Rightarrow> string \<times> string" where
  "filepath_Split p = (take (lastSlash p) p, drop (lastSlash p) p)"

text \<open>
  \<open>filepath.Base\<close>: the last element of the path; trailing slashes are removed first,
  the empty path gives a dot and a path of slashes only gives a slash.
\<close>

definition stripTrailingSlashes :: "string \<Rightarrow> string" where
  "stripTrailingSlashes p = rev (dropWhile (\<lambda>c. c = CHR ''/'') (rev p))"

definition filepath_Base :: "string \<Rightarrow> string" where
  "filepath_Base p =
     (if p = [] then ''.''
      else let q = stripTrailingSlashes p;
               b = drop (lastSlash q) q
           in if b = [] then ''/'' else b)"

text \<open>
  \<open>path.Clean\<close>, by the rules of its documentation: one slash for several, no \<open>.\<close>
  element, no inner \<open>..\<close> element with the element before it, no \<open>..\<close> at the root;
  the empty result is a dot. \<open>cleanElems\<close> keeps the stack of elements kept so far,
  last first.
\<close>

fun cleanElems :: "bool \<Rightarrow> string list \<Rightarrow> string list \<Rightarrow> string list" where
  "cleanElems rooted stack [] = rev stack"
| "cleanElems rooted stack (e # es) =
     (if e = [] \<or> e = ''.'' then cleanElems rooted stack es
      else if e = ''..'' then
        (case stack of
           [] \<Rightarrow> if rooted then cleanElems rooted [] es else cleanElems rooted [e] es
         | t # ts \<Rightarrow> if t = ''..'' then cleanElems rooted (e # stack) es
                     else cleanElems rooted ts es)
      else cleanElems rooted (e # stack) es)"

fun joinWith :: "string \<Rightarrow> string list \<Rightarrow> string" where
  "joinWith sep [] = []"
| "joinWith sep [x] = x"
| "joinWith sep (x # y # ys) = x @ sep @ joinWith sep (y # ys)"

definition path_Clean :: "string \<Rightarrow> string" where
  "path_Clean p =
     (if p = [] then ''.''
      else let rooted = (hd p = CHR ''/'');
               out = (if rooted then ''/'' else []) @ joinWith ''/'' (cleanElems rooted [] (Split p CHR ''/''))
           in if out = [] then ''.'' else out)"

text \<open>\<open>path.Join\<close>: the non-empty elements joined with slashes, cleaned; empty if none.\<close>

definition path_Join :: "string list \<Rightarrow> string" where
  "path_Join elems =
     (let es = filter (\<lambda>e. e \<noteq> []) elems
      in if es = [] then [] else path_Clean (joinWith ''/'' es))"

section \<open>Data model\<close>

subsection \<open>Dynamic values\<close>

text \<open>\<open>slog.Source\<close>: function, file and line of a call site.\<close>

record Source =
  Function :: string
  File :: string
  Line :: int

text \<open>The outcome of calling \<open>MarshalText\<close> on a value: the bytes, an error, or a panic
  (with the text \<open>%v\<close> prints for the value recovered).\<close>

datatype marshalResult = MarshalOk string | MarshalErr | MarshalPanic string

text \<open>
  A Go value of interface type \<open>any\<close>, by the dynamic types the code distinguishes:
  \<^item> \<open>Nil\<close>: the nil interface (what \<open>ctx.Value\<close> returns for an absent key);
  \<^item> \<open>StringVal\<close>, \<open>Int64Val\<close>: a \<open>string\<close>, an \<open>int64\<close>;
  \<^item> \<open>LevelVal\<close>: a \<open>slog.Level\<close>; \<open>DurationVal\<close>: a \<open>time.Duration\<close> in nanoseconds;
  \<^item> \<open>SourceVal\<close>: a \<open>slog.Source\<close> struct; \<open>SourcePtr\<close>: a \<open>*slog.Source\<close>, \<open>None\<close> the
    nil pointer;
  \<^item> \<open>TextMarshalerVal nilptr res v pv\<close>: any other value that implements
    \<open>encoding.TextMarshaler\<close>: whether it is a nil pointer, the outcome of
    \<open>MarshalText\<close>, and what \<open>%v\<close> and \<open>%+v\<close> print for it;
  \<^item> \<open>LogErrorVal msg\<close>: a \<open>logError\<close> whose \<open>Error()\<close> is \<open>msg\<close>;
  \<^item> \<open>OtherVal nilptr v pv\<close>: any other value: whether it is a nil pointer, and what
    \<open>%v\<close> and \<open>%+v\<close> print for it.
\<close>

datatype goany =
    Nil
  | StringVal string
  | Int64Val int
  | LevelVal int
  | DurationVal int
  | SourceVal Source
  | SourcePtr "Source option"
  | TextMarshalerVal bool marshalResult string string
  | LogErrorVal string
  | OtherVal bool string string

text \<open>\<open>reflect.ValueOf(x).Kind() == reflect.Pointer && reflect.ValueOf(x).IsNil()\<close>.\<close>

fun isNilPointer :: "goany \<Rightarrow> bool" where
  "isNilPointer (SourcePtr None) = True"
| "isNilPointer (TextMarshalerVal nilptr _ _ _) = nilptr"
| "isNilPointer (OtherVal nilptr _ _) = nilptr"
| "isNilPointer _ = False"

subsection \<open>Levels\<close>

definition LevelDebug :: int where "LevelDebug = -4"
definition LevelInfo :: int where "LevelInfo = 0"
definition LevelWarn :: int where "LevelWarn = 4"
definition LevelError :: int where "LevelError = 8"

text \<open>\<open>slog.Level.String\<close>: the name of the level at or below, and the signed offset.\<close>

definition levelStr :: "string \<Rightarrow> int \<Rightarrow> string" where
  "levelStr base val =
     (if val = 0 then base
      else base @ (if 0 < val then ''+'' @ Itoa val else Itoa val))"

definition Level_String :: "int \<Rightarrow> string" where
  "Level_String l =
     (if l < LevelInfo then levelStr ''DEBUG'' (l - LevelDebug)
      else if l < LevelWarn then levelStr ''INFO'' (l - LevelInfo)
      else if l < LevelError then levelStr ''WARN'' (l - LevelWarn)
      else levelStr ''ERROR'' (l - LevelError))"

subsection \<open>fmt\<close>

definition Source_fields :: "Source \<Rightarrow> string" where
  "Source_fields s = ''{'' @ Function s @ '' '' @ File s @ '' '' @ Itoa (Line s) @ ''}''"

definition Source_fields_plus :: "Source \<Rightarrow> string" where
  "Source_fields_plus s =
     ''{Function:'' @ Function s @ '' File:'' @ File s @ '' Line:'' @ Itoa (Line s) @ ''}''"

text \<open>\<open>fmt.Sprintf("%v", x)\<close>.\<close>

fun Sprint_v :: "golib \<Rightarrow> goany \<Rightarrow> string" where
  "Sprint_v L Nil = ''<nil>''"
| "Sprint_v L (StringVal s) = s"
| "Sprint_v L (Int64Val i) = Itoa i"
| "Sprint_v L (LevelVal l) = Level_String l"
| "Sprint_v L (DurationVal d) = durationString L d"
| "Sprint_v L (SourceVal s) = Source_fields s"
| "Sprint_v L (SourcePtr None) = ''<nil>''"
| "Sprint_v L (SourcePtr (Some s)) = ''&'' @ Source_fields s"
| "Sprint_v L (TextMarshalerVal _ _ v _) = v"
| "Sprint_v L (LogErrorVal msg) = msg"
| "Sprint_v L (OtherVal _ v _) = v"

text \<open>\<open>fmt.Sprintf("%+v", x)\<close>.\<close>

fun Sprint_plus_v :: "golib \<Rightarrow> goany \<Rightarrow> string" where
  "Sprint_plus_v L (SourceVal s) = Source_fields_plus s"
| "Sprint_plus_v L (SourcePtr (Some s)) = ''&'' @ Source_fields_plus s"
| "Sprint_plus_v L (TextMarshalerVal _ _ _ pv) = pv"
| "Sprint_plus_v L (OtherVal _ _ pv) = pv"
| "Sprint_plus_v L x = Sprint_v L x"

subsection \<open>Attributes and values of log/slog\<close>

text \<open>
  A \<open>slog.Value\<close> by its kind, and a \<open>slog.Attr\<close> as key and value. \<open>KindFloat64\<close> holds
  the bits of the float, \<open>KindDuration\<close> nanoseconds, \<open>KindTime\<close> the nanoseconds since
  the zero time, \<open>KindLogValuer\<close> the value that \<open>LogValue()\<close> returns.
  The zero \<open>Value\<close> is \<open>KindAny Nil\<close>.
\<close>

datatype Attr = Attr string Value
and Value =
    KindAny goany
  | KindBool bool
  | KindDuration int
  | KindFloat64 "64 word"
  | KindInt64 int
  | KindString string
  | KindTime int
  | KindUint64 nat
  | KindGroup "Attr list"
  | KindLogValuer Value

text \<open>\<open>slog.AnyValue\<close>: a string, an int64 and a duration get their own kind.\<close>

fun AnyValue :: "goany \<Rightarrow> Value" where
  "AnyValue (StringVal s) = KindString s"
| "AnyValue (Int64Val i) = KindInt64 i"
| "AnyValue (DurationVal d) = KindDuration d"
| "AnyValue x = KindAny x"

text \<open>
  \<open>Value.Resolve\<close>: \<open>LogValue\<close> is called while the value is a \<open>LogValuer\<close>, at most
  \<open>maxLogValues\<close> = 100 times; when the loop runs out, the result is an error value.
  \<open>i\<close> is the loop counter.
\<close>

definition maxLogValues :: nat where
  "maxLogValues = 100"

definition tooManyLogValues :: Value where
  "tooManyLogValues =
     KindAny (OtherVal False ''LogValue called too many times'' ''LogValue called too many times'')"

fun Resolve_from :: "nat \<Rightarrow> Value \<Rightarrow> Value" where
  "Resolve_from i (KindLogValuer v) =
     (if i < maxLogValues then Resolve_from (Suc i) v else tooManyLogValues)"
| "Resolve_from i v = (if i < maxLogValues then v else tooManyLogValues)"

definition Resolve :: "Value \<Rightarrow> Value" where
  "Resolve v = Resolve_from 0 v"

text \<open>\<open>attr.Equal(slog.Attr{})\<close>: the key is empty and the value is the zero \<open>Value\<close>.\<close>

definition isZeroAttr :: "string \<Rightarrow> Value \<Rightarrow> bool" where
  "isZeroAttr key v = (key = [] \<and> v = KindAny Nil)"

section \<open>The dev handler (part\_000)\<close>

subsection \<open>ANSI colour codes\<close>

definition ansiEsc :: nat where "ansiEsc = 0x1B"

definition Reset :: string where "Reset = CHR 0x1B # ''[0m''"
definition Red :: string where "Red = CHR 0x1B # ''[31m''"
definition Faint :: string where "Faint = CHR 0x1B # ''[90m''"
definition Green :: string where "Green = CHR 0x1B # ''[32m''"
definition Yellow :: string where "Yellow = CHR 0x1B # ''[33m''"
definition Blue :: string where "Blue = CHR 0x1B # ''[34m''"
definition Magenta :: string where "Magenta = CHR 0x1B # ''[35m''"
definition Cyan :: string where "Cyan = CHR 0x1B # ''[36m''"
definition BrightGreen :: string where "BrightGreen = CHR 0x1B # ''[92m''"
definition BrightYellow :: string where "BrightYellow = CHR 0x1B # ''[93m''"

subsection \<open>Strings\<close>

text \<open>
  \<open>cut(s, f)\<close>: the runes of \<open>s\<close> that \<open>f\<close> does not drop, up to the first rune that
  decodes to \<open>RuneError\<close>. The closure \<open>f\<close> of the source carries a flag between calls;
  it is modelled as a function from the flag and the rune to the answer and the new
  flag. A rune that was decoded is written back as the bytes it was decoded from.
\<close>

function cut_from :: "(bool \<Rightarrow> nat \<Rightarrow> bool \<times> bool) \<Rightarrow> bool \<Rightarrow> string \<Rightarrow> string" where
  "cut_from f st [] = []"
| "cut_from f st (c # cs) =
     (if fst (DecodeRuneInString (c # cs)) = RuneError then []
      else (if fst (f st (fst (DecodeRuneInString (c # cs)))) then []
            else take (snd (DecodeRuneInString (c # cs))) (c # cs))
           @ cut_from f (snd (f st (fst (DecodeRuneInString (c # cs)))))
               (drop (snd (DecodeRuneInString (c # cs))) (c # cs)))"
  by pat_completeness auto
termination
proof (relation "measure (\<lambda>(f, st, s). length s)")
  show "wf (measure (\<lambda>(f, st, s). length s))" by simp
next
  fix f :: "bool \<Rightarrow> nat \<Rightarrow> bool \<times> bool" and st :: bool and c :: char and cs :: string
  have "1 \<le> snd (DecodeRuneInString (c # cs))"
    by (rule DecodeRuneInString_width) simp
  then show "((f, snd (f st (fst (DecodeRuneInString (c # cs)))),
               drop (snd (DecodeRuneInString (c # cs))) (c # cs)), (f, st, c # cs))
      \<in> measure (\<lambda>(f, st, s). length s)"
    by simp
qed

text \<open>The closure that \<open>appendString\<close> passes to \<open>cut\<close>; the flag is \<open>inEscape\<close>.\<close>

definition trimAnsi :: "golib \<Rightarrow> bool \<Rightarrow> nat \<Rightarrow> bool \<times> bool" where
  "trimAnsi L inEscape r =
     (if r = ansiEsc then (True, True)
      else if inEscape \<and> isLetter L r then (True, False)
      else (inEscape, inEscape))"

text \<open>\<open>strings.ReplaceAll(s, `\x1b`, string(ansiEsc))\<close>: the four bytes backslash, \<open>x\<close>,
  \<open>1\<close>, \<open>b\<close> become the escape byte, left to right.\<close>

fun restoreEsc :: "string \<Rightarrow> string" where
  "restoreEsc (a # b # c # d # rest) =
     (if a = CHR 0x5C \<and> b = CHR ''x'' \<and> c = CHR ''1'' \<and> d = CHR ''b''
      then CHR 0x1B # restoreEsc rest
      else a # restoreEsc (b # c # d # rest))"
| "restoreEsc s = s"

definition appendString :: "golib \<Rightarrow> string \<Rightarrow> string \<Rightarrow> bool \<Rightarrow> bool \<Rightarrow> string" where
  "appendString L buf s quote color =
     (let s1 = (if quote \<and> \<not> color then cut_from (trimAnsi L) False s else s);
          quote1 = (quote \<and> needsQuoting L s1)
      in if color \<and> quote1 then buf @ restoreEsc (Quote L s1)
         else if \<not> color \<and> quote1 then buf @ Quote L s1
         else buf @ s1)"

subsection \<open>Level, source, key\<close>

definition appendLevel :: "string \<Rightarrow> int \<Rightarrow> string" where
  "appendLevel buf level =
     (let colorLevel = (if level = LevelInfo then BrightGreen
                        else if level = LevelWarn then BrightYellow
                        else Red)
      in buf @ colorLevel @ Level_String level @ Reset)"

definition appendSource :: "string \<Rightarrow> Source \<Rightarrow> string" where
  "appendSource buf src =
     (let (dir, file) = filepath_Split (File src)
      in buf @ Faint @ path_Join [filepath_Base dir, file]
         @ (if Line src \<noteq> 0 then '':'' @ Itoa (Line src) @ Reset else [])
         @ '' '' @ Blue @ getFuncNameSlog (Function src) @ Reset @ '' '')"

definition appendKey :: "golib \<Rightarrow> string \<Rightarrow> string \<Rightarrow> string \<Rightarrow> string" where
  "appendKey L buf key groups =
     appendString L (buf @ Faint) (groups @ key) False True @ ''='' @ Reset"

definition appendTintError :: "golib \<Rightarrow> string \<Rightarrow> string \<Rightarrow> string \<Rightarrow> string \<Rightarrow> string" where
  "appendTintError L buf err attrKey groupsPrefix =
     appendString L
       (appendString L (buf @ Blue) (groupsPrefix @ attrKey) True True @ ''='' @ Faint)
       err True True
     @ Reset"

subsection \<open>Values\<close>

text \<open>
  The type switch of \<open>appendValue\<close> on a value of kind \<open>Any\<close>, before the deferred
  function runs: it returns the buffer, or it panics and leaves the buffer as it was
  then, with the text \<open>%v\<close> prints for the value recovered. \<open>MarshalText\<close> may panic; a
  nil \<open>*slog.Source\<close> panics in \<open>appendSource\<close> when its \<open>File\<close> is read, before anything
  is written.
\<close>

datatype outcome = Returned string | Panicked string string

definition nilDereference :: string where
  "nilDereference = ''runtime error: invalid memory address or nil pointer dereference''"

fun appendAny :: "golib \<Rightarrow> string \<Rightarrow> goany \<Rightarrow> bool \<Rightarrow> outcome" where
  "appendAny L buf (LevelVal cv) quote = Returned (appendLevel buf cv)"
| "appendAny L buf (TextMarshalerVal nilptr res v pv) quote =
     (case res of
        MarshalPanic r \<Rightarrow> Panicked buf r
      | MarshalErr \<Rightarrow> Returned buf
      | MarshalOk data \<Rightarrow> Returned (appendString L buf data quote True))"
| "appendAny L buf (SourcePtr None) quote = Panicked buf nilDereference"
| "appendAny L buf (SourcePtr (Some cv)) quote = Returned (appendSource buf cv)"
| "appendAny L buf cv quote = Returned (appendString L buf (Sprint_plus_v L cv) quote True)"

text \<open>\<open>appendValue\<close>; for the kind \<open>Any\<close> the deferred function recovers a panic.\<close>

fun appendValue :: "golib \<Rightarrow> string \<Rightarrow> Value \<Rightarrow> bool \<Rightarrow> string" where
  "appendValue L buf (KindString s) quote = appendString L buf s quote True"
| "appendValue L buf (KindInt64 i) quote = buf @ Itoa i"
| "appendValue L buf (KindUint64 n) quote = buf @ natDigits n"
| "appendValue L buf (KindFloat64 f) quote = buf @ formatFloat L f"
| "appendValue L buf (KindBool b) quote = buf @ AppendBool b"
| "appendValue L buf (KindDuration d) quote = appendString L buf (durationString L d) quote True"
| "appendValue L buf (KindTime t) quote = appendString L buf (timeString L t) quote True"
| "appendValue L buf (KindAny a) quote =
     (case appendAny L buf a quote of
        Returned buf' \<Rightarrow> buf'
      | Panicked buf' r \<Rightarrow>
          if isNilPointer a then appendString L buf' ''<nil>'' False False
          else appendString L buf' (''!PANIC: '' @ r) True True)"
| "appendValue L buf (KindGroup as) quote = buf"
| "appendValue L buf (KindLogValuer v) quote = buf"

subsection \<open>Attributes\<close>

lemma Resolve_from_size: "size (Resolve_from i v) \<le> size v"
  by (induction i v rule: Resolve_from.induct) (auto simp: tooManyLogValues_def)

lemma Resolve_group_size:
  assumes "Resolve v = KindGroup as"
  shows "size_list size as < size v"
proof -
  have "size (KindGroup as) \<le> size v"
    using Resolve_from_size [of 0 v] assms by (simp add: Resolve_def)
  then show ?thesis by simp
qed

text \<open>
  \<open>appendAttr\<close>, and the loop over the members of a group (\<open>appendAttrs\<close>), which is also
  the loop of \<open>Handle\<close> and of \<open>WithAttrs\<close> over a list of attributes.
\<close>

function appendAttr :: "golib \<Rightarrow> string \<Rightarrow> Attr \<Rightarrow> string \<Rightarrow> string list \<Rightarrow> string"
  and appendAttrs :: "golib \<Rightarrow> string \<Rightarrow> Attr list \<Rightarrow> string \<Rightarrow> string list \<Rightarrow> string"
where
  "appendAttr L buf (Attr key v) groupsPrefix groups =
     (if isZeroAttr key (Resolve v) then buf
      else (case Resolve v of
              KindAny (LogErrorVal err) \<Rightarrow>
                appendTintError L buf err key groupsPrefix @ '' ''
            | KindGroup as \<Rightarrow>
                appendAttrs L buf as
                  (if key \<noteq> [] then groupsPrefix @ key @ ''.'' else groupsPrefix)
                  (if key \<noteq> [] then groups @ [key] else groups)
            | value \<Rightarrow>
                appendValue L (appendKey L buf key groupsPrefix) value True @ '' ''))"
| "appendAttrs L buf [] groupsPrefix groups = buf"
| "appendAttrs L buf (a # as) groupsPrefix groups =
     appendAttrs L (appendAttr L buf a groupsPrefix groups) as groupsPrefix groups"
  by pat_completeness auto
termination
proof (relation "measure (\<lambda>x. case x of
          Inl (L, buf, a, gp, gs) \<Rightarrow> 2 * size a
        | Inr (L, buf, as, gp, gs) \<Rightarrow> 2 * size_list size as + 1)")
qed (auto dest: Resolve_group_size)

subsection \<open>Handler state, records and contexts\<close>

text \<open>
  The output sink \<open>w\<close> is an \<open>io.Writer\<close>: the nil interface, or a reference to a sink.
  A sink holds the bytes written so far and, when it is broken, the error that every
  \<open>Write\<close> returns.
\<close>

datatype writer = NilWriter | WriterRef nat

record sink =
  written :: string
  failure :: "string option"

type_synonym sinks = "nat \<Rightarrow> sink"

text \<open>
  \<open>handlerTextColor\<close>. No method assigns to a field of an existing handler, so a handler
  is a value; \<open>level\<close> is the level the \<open>slog.Leveler\<close> reports, \<open>slowThreshold\<close> is in
  nanoseconds. \<open>groups\<close> is handed from call to call and never read for the output.
  The mutex only serialises the final write and is not part of the state.
\<close>

record handlerTextColor =
  source :: bool
  timeFormat :: string
  level :: int
  attrsPrefix :: string
  groupPrefix :: string
  addCxtAttr :: "string list"
  groups :: "string list"
  slowThreshold :: int
  w :: writer

record Options =
  opt_AddCxtAttr :: "string list"
  opt_W :: writer
  opt_Source :: bool
  opt_SlowThreshold :: int

text \<open>
  A \<open>slog.Record\<close>. \<open>Time\<close> is in nanoseconds since the zero time (so \<open>IsZero\<close> is
  \<open>Time r = 0\<close>); \<open>PC\<close> is given by the frame that \<open>runtime.CallersFrames\<close> finds for it
  (function, file, line), the zero frame when there is none.
\<close>

record slogRecord =
  Time :: int
  Level :: int
  Message :: string
  PC :: Source
  Attrs :: "Attr list"

text \<open>A context, by what \<open>ctx.Value(key)\<close> returns for a string key.\<close>

type_synonym Context = "string \<Rightarrow> goany"

definition Background :: Context where
  "Background = (\<lambda>_. Nil)"

definition WithValue :: "Context \<Rightarrow> string \<Rightarrow> goany \<Rightarrow> Context" where
  "WithValue ctx key val = ctx (key := val)"

text \<open>The context keys of logger.go.\<close>

definition Source :: string where "Source = ''source''"
definition Duration :: string where "Duration = ''duration''"
definition Rows :: string where "Rows = ''rows''"
definition Sql :: string where "Sql = ''sql''"

definition TimeOnly :: string where "TimeOnly = ''15:04:05''"
definition Second :: int where "Second = 1000000000"

subsection \<open>Construction and derivation\<close>

definition NewDevHandler :: "Options \<Rightarrow> handlerTextColor" where
  "NewDevHandler opt =
     (let opt = (if opt_SlowThreshold opt = 0 then opt \<lparr>opt_SlowThreshold := Second\<rparr> else opt)
      in \<lparr>source = opt_Source opt,
          timeFormat = TimeOnly,
          level = LevelDebug,
          attrsPrefix = [],
          groupPrefix = [],
          addCxtAttr = opt_AddCxtAttr opt,
          groups = [],
          slowThreshold = opt_SlowThreshold opt,
          w = opt_W opt\<rparr>)"

text \<open>\<open>clone\<close> builds a new struct from six fields of \<open>h\<close>; the fields it does not name
  (\<open>source\<close>, \<open>addCxtAttr\<close>, \<open>slowThreshold\<close>) get the zero value of their type.\<close>

definition clone :: "handlerTextColor \<Rightarrow> handlerTextColor" where
  "clone h =
     \<lparr>source = False,
      timeFormat = timeFormat h,
      level = level h,
      attrsPrefix = attrsPrefix h,
      groupPrefix = groupPrefix h,
      addCxtAttr = [],
      groups = groups h,
      slowThreshold = 0,
      w = w h\<rparr>"

definition Enabled :: "handlerTextColor \<Rightarrow> Context \<Rightarrow> int \<Rightarrow> bool" where
  "Enabled h ctx lvl = True"

definition WithAttrs :: "golib \<Rightarrow> handlerTextColor \<Rightarrow> Attr list \<Rightarrow> handlerTextColor" where
  "WithAttrs L h attrs =
     (if length attrs = 0 then h
      else let h2 = clone h;
               buf = appendAttrs L [] attrs (groupPrefix h) (groups h)
           in h2 \<lparr>attrsPrefix := attrsPrefix h @ buf\<rparr>)"

definition WithGroup :: "handlerTextColor \<Rightarrow> string \<Rightarrow> handlerTextColor" where
  "WithGroup h name =
     (if name = [] then h
      else let h2 = clone h;
               h2 = h2 \<lparr>groupPrefix := groupPrefix h2 @ name @ ''.''\<rparr>
           in h2 \<lparr>groups := groups h2 @ [name]\<rparr>)"

subsection \<open>Rendering one record\<close>

definition appendTime :: "golib \<Rightarrow> handlerTextColor \<Rightarrow> string \<Rightarrow> int \<Rightarrow> string" where
  "appendTime L h buf t = buf @ Faint @ appendFormat L t (timeFormat h) @ Reset"

definition appendMessage :: "string \<Rightarrow> int \<Rightarrow> string \<Rightarrow> string" where
  "appendMessage buf lvl msg =
     (if msg = [] then buf
      else let colorMsg = (if lvl = LevelError then Red else Cyan)
           in buf @ colorMsg @ msg @ Reset @ '' '')"

definition appendCtxValue :: "string \<Rightarrow> string \<Rightarrow> string \<Rightarrow> string" where
  "appendCtxValue buf key val = buf @ Faint @ (key @ ''='') @ Reset @ val"

fun AddValueCtx_loop :: "golib \<Rightarrow> Context \<Rightarrow> string \<Rightarrow> string list \<Rightarrow> string" where
  "AddValueCtx_loop L ctx buf [] = buf"
| "AddValueCtx_loop L ctx buf (v # vs) =
     AddValueCtx_loop L ctx
       (if ctx v \<noteq> Nil then appendCtxValue buf v (Sprint_v L (ctx v) @ '' '') else buf) vs"

definition AddValueCtx :: "golib \<Rightarrow> handlerTextColor \<Rightarrow> Context \<Rightarrow> string \<Rightarrow> string" where
  "AddValueCtx L h ctx buf = AddValueCtx_loop L ctx buf (addCxtAttr h)"

text \<open>The duration sub-block of \<open>appendSql\<close>: written only when the value under
  \<open>Duration\<close> is a \<open>time.Duration\<close>.\<close>

definition appendSqlDuration :: "golib \<Rightarrow> handlerTextColor \<Rightarrow> Context \<Rightarrow> string \<Rightarrow> string" where
  "appendSqlDuration L h ctx buf =
     (case ctx Duration of
        DurationVal c \<Rightarrow>
          let colorDuration = (if slowThreshold h < c then Red else Green)
          in buf @ colorDuration @ (''['' @ formatSeconds L c @ ''] '') @ Reset
      | _ \<Rightarrow> buf)"

definition appendSql :: "golib \<Rightarrow> handlerTextColor \<Rightarrow> Context \<Rightarrow> int \<Rightarrow> string \<Rightarrow> string" where
  "appendSql L h ctx lvl buf =
     (if ctx Sql = Nil then buf
      else let buf = buf @ [CHR 0x0A];
               buf = appendSqlDuration L h ctx buf;
               buf = (if ctx Rows \<noteq> Nil
                      then buf @ Yellow @ (''rows:'' @ Sprint_v L (ctx Rows) @ '' '') @ Reset
                      else buf);
               colorSql = (if lvl = LevelError then Red else Magenta)
           in buf @ colorSql @ (Sprint_v L (ctx Sql) @ '' '') @ Reset @ [CHR 0x0A])"

text \<open>The source block of \<open>Handle\<close>.\<close>

definition handleSource :: "handlerTextColor \<Rightarrow> Context \<Rightarrow> slogRecord \<Rightarrow> string \<Rightarrow> string" where
  "handleSource h ctx r buf =
     (let f = PC r
      in if source h \<and> File f \<noteq> [] then
           (case ctx Source of
              SourceVal c \<Rightarrow> appendSource buf c
            | _ \<Rightarrow> appendSource buf \<lparr>Function = Function f, File = File f, Line = Line f\<rparr>)
         else buf)"

text \<open>The buffer of \<open>Handle\<close> when it reaches the test \<open>len(*buf) == 0\<close>.\<close>

definition render :: "golib \<Rightarrow> handlerTextColor \<Rightarrow> Context \<Rightarrow> slogRecord \<Rightarrow> string" where
  "render L h ctx r =
     (let buf = [];
          buf = (if Time r \<noteq> 0 then appendTime L h buf (Time r) @ '' '' else buf);
          buf = appendLevel buf (Level r) @ '' '';
          buf = handleSource h ctx r buf;
          buf = appendMessage buf (Level r) (Message r);
          buf = appendAttrs L buf (Attrs r) (groupPrefix h) (groups h);
          buf = AddValueCtx L h ctx buf;
          buf = (if 0 < length (attrsPrefix h) then buf @ attrsPrefix h else buf)
      in appendSql L h ctx (Level r) buf)"

text \<open>What \<open>Handle\<close> returns: the error of the write (\<open>None\<close> is nil), or a panic.\<close>

datatype handleResult = Result "string option" | Panic string

definition Write :: "writer \<Rightarrow> string \<Rightarrow> sinks \<Rightarrow> handleResult \<times> sinks" where
  "Write wr bytes S =
     (case wr of
        NilWriter \<Rightarrow> (Panic nilDereference, S)
      | WriterRef i \<Rightarrow>
          (case failure (S i) of
             Some err \<Rightarrow> (Result (Some err), S)
           | None \<Rightarrow> (Result None, S (i := (S i) \<lparr>written := written (S i) @ bytes\<rparr>))))"

definition Handle ::
  "golib \<Rightarrow> handlerTextColor \<Rightarrow> Context \<Rightarrow> slogRecord \<Rightarrow> sinks \<Rightarrow> handleResult \<times> sinks" where
  "Handle L h ctx r S =
     (let buf = render L h ctx r
      in if length buf = 0 then (Result None, S)
         else Write (w h) (buf [length buf - 1 := CHR 0x0A]) S)"

section \<open>The context-enrichment decorator (logger.go)\<close>

text \<open>
  \<open>HandlerMiddleware\<close> wraps any \<open>slog.Handler\<close>; the type of the handler wrapped is the
  parameter \<open>'h\<close>, and the methods of that handler that the decorator calls are
  arguments.
\<close>

record 'h HandlerMiddleware =
  mw_source :: bool
  mw_addCxtAttr :: "string list"
  mw_next :: 'h

definition NewHandlerMiddleware :: "'h \<Rightarrow> Options \<Rightarrow> 'h HandlerMiddleware" where
  "NewHandlerMiddleware nxt opt =
     \<lparr>mw_source = opt_Source opt, mw_addCxtAttr = opt_AddCxtAttr opt, mw_next = nxt\<rparr>"

text \<open>\<open>rec.Add(key, value)\<close>: one more attribute at the end of the record.\<close>

definition Add :: "slogRecord \<Rightarrow> string \<Rightarrow> goany \<Rightarrow> slogRecord" where
  "Add r key val = r \<lparr>Attrs := Attrs r @ [Attr key (AnyValue val)]\<rparr>"

fun addCtxAttrs :: "Context \<Rightarrow> slogRecord \<Rightarrow> string list \<Rightarrow> slogRecord" where
  "addCtxAttrs ctx r [] = r"
| "addCtxAttrs ctx r (v # vs) =
     addCtxAttrs ctx (if ctx v \<noteq> Nil then Add r v (ctx v) else r) vs"

text \<open>The record that \<open>HandlerMiddleware.Handle\<close> passes to the next handler.\<close>

definition enrich :: "'h HandlerMiddleware \<Rightarrow> Context \<Rightarrow> slogRecord \<Rightarrow> slogRecord" where
  "enrich m ctx r =
     (let r = addCtxAttrs ctx r (mw_addCxtAttr m);
          r = (if ctx Sql \<noteq> Nil then Add r Sql (ctx Sql) else r)
      in if mw_source m then
           (if ctx Source = Nil then
              (let f = PC r
               in if File f \<noteq> [] then
                    (let (dir, file) = filepath_Split (File f);
                         pathFile = path_Join [filepath_Base dir, file];
                         src = \<lparr>Function = getFuncNameSlog (Function f),
                                File = pathFile, Line = Line f\<rparr>
                     in Add r Source (SourcePtr (Some src)))
                  else r)
            else r)
         else r)"

definition mw_Handle ::
  "('h \<Rightarrow> Context \<Rightarrow> slogRecord \<Rightarrow> 'r) \<Rightarrow> 'h HandlerMiddleware \<Rightarrow> Context \<Rightarrow> slogRecord \<Rightarrow> 'r" where
  "mw_Handle nextHandle m ctx r = nextHandle (mw_next m) ctx (enrich m ctx r)"

definition mw_Enabled ::
  "('h \<Rightarrow> Context \<Rightarrow> int \<Rightarrow> bool) \<Rightarrow> 'h HandlerMiddleware \<Rightarrow> Context \<Rightarrow> int \<Rightarrow> bool" where
  "mw_Enabled nextEnabled m ctx lvl = nextEnabled (mw_next m) ctx lvl"

definition mw_WithAttrs ::
  "('h \<Rightarrow> Attr list \<Rightarrow> 'h) \<Rightarrow> 'h HandlerMiddleware \<Rightarrow> Attr list \<Rightarrow> 'h HandlerMiddleware" where
  "mw_WithAttrs nextWithAttrs m attrs =
     \<lparr>mw_source = False, mw_addCxtAttr = [], mw_next = nextWithAttrs (mw_next m) attrs\<rparr>"

definition mw_WithGroup ::
  "('h \<Rightarrow> string \<Rightarrow> 'h) \<Rightarrow> 'h HandlerMiddleware \<Rightarrow> string \<Rightarrow> 'h HandlerMiddleware" where
  "mw_WithGroup nextWithGroup m name =
     \<lparr>mw_source = False, mw_addCxtAttr = [], mw_next = nextWithGroup (mw_next m) name\<rparr>"

section \<open>A library instance for the examples\<close>

text \<open>
  The examples below are evaluated with \<open>exampleLib\<close>. Its Unicode predicates are those
  of Go on the Latin-1 code points (U+0000 to U+00FF), and on U+FFFD
  (the replacement character, which is printable); no example uses another code point.
  \<open>formatSeconds\<close> rounds the nanoseconds to four decimals of a second, which is what
  Go prints for the durations of the examples. No example formats a float, a duration
  value or a time.
\<close>

definition fourDecimals :: "int \<Rightarrow> string" where
  "fourDecimals d =
     (let t = nat ((\<bar>d\<bar> + 50000) div 100000)
      in (if d < 0 \<and> t \<noteq> 0 then ''-'' else []) @ natDigits (t div 10000) @ ''.''
         @ [digitChar (t div 1000), digitChar (t div 100), digitChar (t div 10), digitChar t])"

definition exampleLib :: golib where
  "exampleLib =
     \<lparr>isSpace = (\<lambda>r. (9 \<le> r \<and> r \<le> 13) \<or> r = 0x20 \<or> r = 0x85 \<or> r = 0xA0),
      isPrint = (\<lambda>r. (0x20 \<le> r \<and> r \<le> 0x7E) \<or> (0xA1 \<le> r \<and> r \<le> 0xFF \<and> r \<noteq> 0xAD) \<or> r = 0xFFFD),
      isLetter = (\<lambda>r. (0x41 \<le> r \<and> r \<le> 0x5A) \<or> (0x61 \<le> r \<and> r \<le> 0x7A)
                      \<or> r = 0xAA \<or> r = 0xB5 \<or> r = 0xBA
                      \<or> (0xC0 \<le> r \<and> r \<le> 0xFF \<and> r \<noteq> 0xD7 \<and> r \<noteq> 0xF7)),
      formatFloat = (\<lambda>f. []),
      formatSeconds = fourDecimals,
      durationString = (\<lambda>d. []),
      timeString = (\<lambda>t. []),
      appendFormat = (\<lambda>t layout. [])\<rparr>"

section \<open>Inputs of the examples\<close>

text \<open>
  Options with a context key, source resolution and a threshold of two seconds, and
  options with none of them (the threshold then defaults to one second); a record
  without a program counter and one with a frame; a context as the trace adapter
  builds it for a query that took \<open>d\<close> nanoseconds; a sink that accepts every write;
  a nil pointer whose \<open>MarshalText\<close> dereferences it, and a value whose \<open>MarshalText\<close>
  panics with \<open>boom\<close>.
\<close>

definition tracingOptions :: Options where
  "tracingOptions =
     \<lparr>opt_AddCxtAttr = [''request_id''], opt_W = WriterRef 0, opt_Source = True,
      opt_SlowThreshold = 2 * Second\<rparr>"

definition plainOptions :: Options where
  "plainOptions =
     \<lparr>opt_AddCxtAttr = [], opt_W = WriterRef 0, opt_Source = False, opt_SlowThreshold = 0\<rparr>"

definition startedRecord :: slogRecord where
  "startedRecord =
     \<lparr>Time = 0, Level = LevelInfo, Message = ''started'',
      PC = \<lparr>Function = [], File = [], Line = 0\<rparr>,
      Attrs = [Attr ''k'' (KindInt64 1)]\<rparr>"

definition tracedRecord :: slogRecord where
  "tracedRecord =
     \<lparr>Time = 0, Level = LevelInfo, Message = ''started'',
      PC = \<lparr>Function = ''main.run.func1'', File = ''/home/u/app/cmd/main.go'', Line = 42\<rparr>,
      Attrs = []\<rparr>"

definition traceContext :: "int \<Rightarrow> Context" where
  "traceContext d =
     WithValue (WithValue (WithValue Background Sql (StringVal ''SELECT 1'')) Rows (Int64Val 3))
       Duration (DurationVal d)"

text \<open>A context with no \<open>Sql\<close>, no \<open>Rows\<close> and no \<open>request_id\<close>, a string under
  \<open>Duration\<close> and a pointer under \<open>Source\<close>; and the same with a statement.\<close>

definition malformedContext :: Context where
  "malformedContext =
     WithValue (WithValue Background Duration (StringVal ''soon'')) Source (SourcePtr None)"

definition malformedTrace :: Context where
  "malformedTrace = WithValue malformedContext Sql (StringVal ''SELECT 1'')"

definition workingSinks :: sinks where
  "workingSinks = (\<lambda>_. \<lparr>written = [], failure = None\<rparr>)"

definition nilMarshaler :: goany where
  "nilMarshaler = TextMarshalerVal True (MarshalPanic nilDereference) ''<nil>'' ''<nil>''"

definition failingMarshaler :: goany where
  "failingMarshaler = TextMarshalerVal False (MarshalPanic ''boom'') ''{}'' ''{}''"

section \<open>Rules for evaluating examples\<close>

lemmas eval_Atoi = Atoi_def isDigit_def byte_def digitsValue_def HasPrefix_def

lemmas eval_colours = Reset_def Red_def Faint_def Green_def Yellow_def Blue_def Magenta_def
  Cyan_def BrightGreen_def BrightYellow_def

lemmas eval_render = render_def Let_def handleSource_def appendMessage_def appendLevel_def
  Level_String_def levelStr_def LevelInfo_def LevelWarn_def LevelError_def LevelDebug_def
  AddValueCtx_def appendSql_def appendSqlDuration_def isZeroAttr_def Itoa_def digitChar_def
  Background_def Sql_def Duration_def Rows_def Source_def

lemmas eval_quote = appendString_def needsQuoting_def byte_def RuneSelf_def safeSet_def
  safeTrue_def Quote_def appendEscapedRune_def exampleLib_def

lemmas eval_path = appendSource_def filepath_Split_def lastSlash_def filepath_Base_def
  stripTrailingSlashes_def path_Join_def path_Clean_def getFuncNameSlog_def eval_Atoi

section \<open>Properties of the encoders\<close>

lemma Resolve_KindAny [simp]: "Resolve (KindAny a) = KindAny a"
  by (simp add: Resolve_def maxLogValues_def)

lemma Resolve_KindGroup [simp]: "Resolve (KindGroup as) = KindGroup as"
  by (simp add: Resolve_def maxLogValues_def)

lemma Resolve_KindInt64 [simp]: "Resolve (KindInt64 i) = KindInt64 i"
  by (simp add: Resolve_def maxLogValues_def)

lemma appendString_unquoted: "appendString L buf s False color = buf @ s"
  by (simp add: appendString_def)

lemma appendKey_eq: "appendKey L buf key gp = buf @ Faint @ gp @ key @ ''='' @ Reset"
  by (simp add: appendKey_def appendString_unquoted)

lemma needsQuoting_panic_marker: "needsQuoting L (''!PANIC: '' @ msg) = True"
  by (simp add: needsQuoting_def byte_def RuneSelf_def safeSet_def safeTrue_def)

lemma appendString_panic_marker:
  "appendString L buf (''!PANIC: '' @ msg) True True = buf @ restoreEsc (Quote L (''!PANIC: '' @ msg))"
  using needsQuoting_panic_marker [of L msg] by (simp add: appendString_def)

lemma appendAttr_plain:
  assumes "\<not> isZeroAttr key (Resolve v)"
    and "\<And>err. Resolve v \<noteq> KindAny (LogErrorVal err)"
    and "\<And>as. Resolve v \<noteq> KindGroup as"
  shows "appendAttr L buf (Attr key v) gp gs
           = appendValue L (appendKey L buf key gp) (Resolve v) True @ '' ''"
  using assms by (simp del: appendValue.simps split: Value.splits goany.splits)

lemma appendAttr_logError:
  assumes "Resolve v = KindAny (LogErrorVal err)"
  shows "appendAttr L buf (Attr key v) gp gs = appendTintError L buf err key gp @ '' ''"
  using assms by (simp add: isZeroAttr_def)

lemma appendAttr_group:
  assumes "Resolve v = KindGroup as"
  shows "appendAttr L buf (Attr key v) gp gs
           = appendAttrs L buf as (if key \<noteq> [] then gp @ key @ ''.'' else gp)
               (if key \<noteq> [] then gs @ [key] else gs)"
  using assms by (simp add: isZeroAttr_def)

subsection \<open>Rendering never leaves the buffer empty\<close>

lemma appendString_length: "length buf \<le> length (appendString L buf s quote color)"
  by (simp add: appendString_def Let_def)

lemma appendAny_length:
  "appendAny L buf a quote = Returned buf' \<Longrightarrow> length buf \<le> length buf'"
  by (cases "(L, buf, a, quote)" rule: appendAny.cases)
     (auto simp: appendLevel_def appendSource_def appendString_length Let_def
           split: marshalResult.splits prod.splits)

lemma appendAny_panic:
  "appendAny L buf a quote = Panicked buf' r \<Longrightarrow> buf' = buf"
  by (cases "(L, buf, a, quote)" rule: appendAny.cases)
     (auto split: marshalResult.splits)

lemma appendValue_length: "length buf \<le> length (appendValue L buf v quote)"
proof (cases v)
  case (KindAny a)
  show ?thesis
  proof (cases "appendAny L buf a quote")
    case (Returned buf')
    then show ?thesis using KindAny appendAny_length [OF Returned] by simp
  next
    case (Panicked buf' r)
    then show ?thesis
      using KindAny appendAny_panic [OF Panicked] by (simp add: appendString_length)
  qed
qed (simp_all add: appendString_length)

lemma appendTintError_length: "length buf \<le> length (appendTintError L buf err key gp)"
proof -
  have "length buf \<le> length (appendString L (buf @ Blue) (gp @ key) True True)"
    using appendString_length [of "buf @ Blue" L "gp @ key" True True] by simp
  also have "\<dots> \<le> length (appendString L
        (appendString L (buf @ Blue) (gp @ key) True True @ ''='' @ Faint) err True True)"
    using appendString_length
      [of "appendString L (buf @ Blue) (gp @ key) True True @ ''='' @ Faint" L err True True]
    by simp
  finally show ?thesis by (simp add: appendTintError_def)
qed

lemma appendAttr_length:
  "length buf \<le> length (appendAttr L buf a gp gs)"
  and appendAttrs_length:
  "length buf \<le> length (appendAttrs L buf as gp gs)"
proof (induction L buf a gp gs and L buf as gp gs rule: appendAttr_appendAttrs.induct)
  case (1 L buf key v groupsPrefix groups)
  consider (zero) "isZeroAttr key (Resolve v)"
    | (err) err where "Resolve v = KindAny (LogErrorVal err)"
    | (group) as where "\<not> isZeroAttr key (Resolve v)" "Resolve v = KindGroup as"
    | (plain) "\<not> isZeroAttr key (Resolve v)" "\<And>err. Resolve v \<noteq> KindAny (LogErrorVal err)"
        "\<And>as. Resolve v \<noteq> KindGroup as"
    by blast
  then show ?case
  proof cases
    case zero
    then show ?thesis by simp
  next
    case err
    have "length buf \<le> length (appendTintError L buf err key groupsPrefix)"
      by (rule appendTintError_length)
    then show ?thesis
      by (simp only: appendAttr_logError [OF err] length_append)
  next
    case group
    have "length buf \<le> length (appendAttrs L buf as
        (if key \<noteq> [] then groupsPrefix @ key @ ''.'' else groupsPrefix)
        (if key \<noteq> [] then groups @ [key] else groups))"
      using "1.IH" [OF group(1) group(2)] .
    then show ?thesis
      by (simp only: appendAttr_group [OF group(2)])
  next
    case plain
    have "length buf \<le> length (appendKey L buf key groupsPrefix)"
      by (simp add: appendKey_eq)
    also have "\<dots> \<le> length (appendValue L (appendKey L buf key groupsPrefix) (Resolve v) True)"
      by (rule appendValue_length)
    finally show ?thesis
      by (simp only: appendAttr_plain [OF plain] length_append)
  qed
next
  case (2 L buf groupsPrefix groups)
  show ?case by simp
next
  case (3 L buf a as groupsPrefix groups)
  have "length buf \<le> length (appendAttr L buf a groupsPrefix groups)"
    by (rule "3.IH"(1))
  also have "\<dots> \<le> length (appendAttrs L (appendAttr L buf a groupsPrefix groups) as
      groupsPrefix groups)"
    by (rule "3.IH"(2))
  finally show ?case by simp
qed

lemma AddValueCtx_loop_length: "length buf \<le> length (AddValueCtx_loop L ctx buf vs)"
proof (induction vs arbitrary: buf)
  case Nil
  show ?case by simp
next
  case (Cons v vs)
  have "length buf \<le> length (if ctx v \<noteq> Nil
          then appendCtxValue buf v (Sprint_v L (ctx v) @ '' '') else buf)"
    by (simp add: appendCtxValue_def)
  also have "\<dots> \<le> length (AddValueCtx_loop L ctx buf (v # vs))"
    using Cons.IH by simp
  finally show ?case .
qed

lemma appendSqlDuration_length: "length buf \<le> length (appendSqlDuration L h ctx buf)"
  by (simp add: appendSqlDuration_def Let_def split: goany.splits)

lemma appendSql_length: "length buf \<le> length (appendSql L h ctx lvl buf)"
proof (cases "ctx Sql = Nil")
  case True
  then show ?thesis by (simp add: appendSql_def)
next
  case False
  have "length buf \<le> length (appendSqlDuration L h ctx (buf @ [CHR 0x0A]))"
    using appendSqlDuration_length [of "buf @ [CHR 0x0A]" L h ctx] by simp
  then show ?thesis using False by (simp add: appendSql_def Let_def)
qed

lemma handleSource_length: "length buf \<le> length (handleSource h ctx r buf)"
  by (simp add: handleSource_def appendSource_def Let_def split: goany.splits prod.splits)

lemma appendMessage_length: "length buf \<le> length (appendMessage buf lvl msg)"
  by (simp add: appendMessage_def Let_def)

lemma render_length: "0 < length (render L h ctx r)"
proof -
  define b2 where "b2 = appendLevel (if Time r \<noteq> 0 then appendTime L h [] (Time r) @ '' '' else [])
      (Level r) @ '' ''"
  define b3 where "b3 = handleSource h ctx r b2"
  define b4 where "b4 = appendMessage b3 (Level r) (Message r)"
  define b5 where "b5 = appendAttrs L b4 (Attrs r) (groupPrefix h) (groups h)"
  define b6 where "b6 = AddValueCtx L h ctx b5"
  define b7 where "b7 = (if 0 < length (attrsPrefix h) then b6 @ attrsPrefix h else b6)"
  have eq: "render L h ctx r = appendSql L h ctx (Level r) b7"
    unfolding render_def Let_def b7_def b6_def b5_def b4_def b3_def b2_def ..
  have "0 < length b2" by (simp add: b2_def)
  also have "length b2 \<le> length b3"
    unfolding b3_def by (rule handleSource_length)
  also have "\<dots> \<le> length b4"
    unfolding b4_def by (rule appendMessage_length)
  also have "\<dots> \<le> length b5"
    unfolding b5_def by (rule appendAttrs_length)
  also have "\<dots> \<le> length b6"
    unfolding b6_def AddValueCtx_def by (rule AddValueCtx_loop_length)
  also have "\<dots> \<le> length b7"
    by (simp add: b7_def)
  also have "\<dots> \<le> length (appendSql L h ctx (Level r) b7)"
    by (rule appendSql_length)
  finally show ?thesis by (simp only: eq)
qed

lemma replace_last: "xs \<noteq> [] \<Longrightarrow> xs [length xs - Suc 0 := x] = butlast xs @ [x]"
  by (induction xs rule: rev_induct) (simp_all add: list_update_append)

lemma Handle_writes_line:
  "Handle L h ctx r S = Write (w h) (butlast (render L h ctx r) @ [CHR 0x0A]) S"
  using render_length [of L h ctx r]
  by (simp add: Handle_def Let_def replace_last)

lemma Write_result: "fst (Write wr bytes S) = fst (Write wr bytes' S)"
  by (simp add: Write_def split: writer.splits option.splits)

lemma Write_working_sink:
  "failure (S i) = None \<Longrightarrow> fst (Write (WriterRef i) bytes S) = Result None"
  by (simp add: Write_def)

section \<open>Derivation of dev handlers\<close>

lemma clone_keeps_sink_and_format:
  "w (clone h) = w h \<and> level (clone h) = level h \<and> timeFormat (clone h) = timeFormat h
   \<and> attrsPrefix (clone h) = attrsPrefix h \<and> groupPrefix (clone h) = groupPrefix h
   \<and> groups (clone h) = groups h"
  by (simp add: clone_def)

lemma WithGroup_keeps_sink_and_format:
  "w (WithGroup h name) = w h \<and> level (WithGroup h name) = level h
   \<and> timeFormat (WithGroup h name) = timeFormat h"
  by (simp add: WithGroup_def clone_def Let_def)

lemma WithAttrs_keeps_sink_and_format:
  "w (WithAttrs L h attrs) = w h \<and> level (WithAttrs L h attrs) = level h
   \<and> timeFormat (WithAttrs L h attrs) = timeFormat h"
  by (simp add: WithAttrs_def clone_def Let_def)

lemma WithGroup_resets_configuration:
  "name \<noteq> [] \<Longrightarrow>
     source (WithGroup h name) = False \<and> addCxtAttr (WithGroup h name) = []
     \<and> slowThreshold (WithGroup h name) = 0"
  by (simp add: WithGroup_def clone_def Let_def)

lemma WithAttrs_resets_configuration:
  "attrs \<noteq> [] \<Longrightarrow>
     source (WithAttrs L h attrs) = False \<and> addCxtAttr (WithAttrs L h attrs) = []
     \<and> slowThreshold (WithAttrs L h attrs) = 0"
  by (simp add: WithAttrs_def clone_def Let_def)

text \<open>
  C1. The claim asks that a derived handler has the parent's \<open>source\<close> flag,
  \<open>addCxtAttr\<close> list and \<open>slowThreshold\<close>. \<open>clone\<close> does not copy these three fields: for
  the handler built from \<open>tracingOptions\<close>, the handlers derived by \<open>WithGroup\<close> and by
  \<open>WithAttrs\<close> have source resolution off, no context keys and a threshold of zero,
  while the parent has them as configured. So a query of 250 ms, well under the
  configured two seconds, is rendered green by the parent and red by the handler
  derived from it.
\<close>

theorem derived_handler_loses_configuration:
  "source (NewDevHandler tracingOptions) = True
   \<and> addCxtAttr (NewDevHandler tracingOptions) = [''request_id'']
   \<and> slowThreshold (NewDevHandler tracingOptions) = 2000000000
   \<and> source (WithGroup (NewDevHandler tracingOptions) ''g'') = False
   \<and> addCxtAttr (WithGroup (NewDevHandler tracingOptions) ''g'') = []
   \<and> slowThreshold (WithGroup (NewDevHandler tracingOptions) ''g'') = 0
   \<and> source (WithAttrs L (NewDevHandler tracingOptions) [Attr ''k'' (KindBool True)]) = False
   \<and> addCxtAttr (WithAttrs L (NewDevHandler tracingOptions) [Attr ''k'' (KindBool True)]) = []
   \<and> slowThreshold (WithAttrs L (NewDevHandler tracingOptions) [Attr ''k'' (KindBool True)]) = 0
   \<and> appendSqlDuration L (NewDevHandler tracingOptions) (traceContext 250000000) []
       = Green @ ''['' @ formatSeconds L 250000000 @ ''] '' @ Reset
   \<and> appendSqlDuration L (WithGroup (NewDevHandler tracingOptions) ''g'')
         (traceContext 250000000) []
       = Red @ ''['' @ formatSeconds L 250000000 @ ''] '' @ Reset"
  by (simp add: NewDevHandler_def tracingOptions_def Second_def WithGroup_def WithAttrs_def
      clone_def Let_def appendSqlDuration_def traceContext_def WithValue_def)

section \<open>Attributes with a zero value\<close>

text \<open>
  C2 (as amended). An attribute whose key is empty and whose resolved value is the zero
  value is skipped: \<open>appendAttr\<close> returns the buffer as it got it. So is an attribute,
  with any key, whose resolved value is a group without members.
\<close>

theorem appendAttr_skips_zero_attr:
  "(Resolve v = KindAny Nil \<longrightarrow> appendAttr L buf (Attr [] v) gp gs = buf)
   \<and> (Resolve v = KindGroup [] \<longrightarrow> appendAttr L buf (Attr key v) gp gs = buf)"
  by (simp add: isZeroAttr_def)

theorem appendAttr_skips_zero_attr_witness:
  "Resolve (KindLogValuer (KindAny Nil)) = KindAny Nil
   \<and> appendAttr exampleLib ''x'' (Attr [] (KindLogValuer (KindAny Nil))) ''g.'' [''g''] = ''x''
   \<and> Resolve (KindGroup []) = KindGroup []
   \<and> appendAttr exampleLib ''x'' (Attr ''k'' (KindGroup [])) ''g.'' [''g''] = ''x''"
  using appendAttr_skips_zero_attr [of "KindLogValuer (KindAny Nil)" exampleLib "''x''" "''g.''" "[''g'']" "''k''"]
    appendAttr_skips_zero_attr [of "KindGroup []" exampleLib "''x''" "''g.''" "[''g'']" "''k''"]
  by (simp add: Resolve_def maxLogValues_def)

text \<open>
  C2, as the claim states it, fails: an attribute with the key \<open>k\<close> and the zero value
  is not skipped, the key and \<open><nil>\<close> are written.
\<close>

theorem appendAttr_zero_value_with_key:
  "Resolve (KindAny Nil) = KindAny Nil
   \<and> appendAttr exampleLib [] (Attr ''k'' (KindAny Nil)) [] []
      = Faint @ ''k='' @ Reset @ ''<nil> ''"
  by (simp add: isZeroAttr_def appendKey_eq appendString_def needsQuoting_def byte_def
      RuneSelf_def safeSet_def safeTrue_def)

section \<open>The quoting predicate\<close>

lemma DecodeRuneInString_ascii:
  "byte c < RuneSelf \<Longrightarrow> DecodeRuneInString (c # cs) = (byte c, 1)"
  by (simp add: DecodeRuneInString_def Let_def)

lemma mod_above:
  fixes b :: nat
  assumes "q * m \<le> b" and "b < q * m + m"
  shows "b mod m = b - q * m"
proof -
  have "b mod m = (q * m + (b - q * m)) mod m" using assms by simp
  also have "\<dots> = (b - q * m) mod m" by (simp only: mod_mult_self3)
  also have "\<dots> = b - q * m" using assms by simp
  finally show ?thesis .
qed

lemma lead2_mod: "194 \<le> b \<Longrightarrow> b \<le> 223 \<Longrightarrow> 2 \<le> (b::nat) mod 32"
  using mod_above [of 6 32 b] by simp

lemma lead3_mod: "225 \<le> b \<Longrightarrow> b \<le> 239 \<Longrightarrow> 1 \<le> (b::nat) mod 16"
  using mod_above [of 14 16 b] by simp

lemma cont3_mod: "160 \<le> b \<Longrightarrow> b \<le> 191 \<Longrightarrow> 32 \<le> (b::nat) mod 64"
  using mod_above [of 2 64 b] by simp

lemma lead4_mod: "241 \<le> b \<Longrightarrow> b \<le> 244 \<Longrightarrow> 1 \<le> (b::nat) mod 8"
  using mod_above [of 30 8 b] by simp

lemma cont4_mod: "144 \<le> b \<Longrightarrow> b \<le> 191 \<Longrightarrow> 16 \<le> (b::nat) mod 64"
  using mod_above [of 2 64 b] by simp

lemma RuneError_not_ascii: "\<not> RuneError < RuneSelf"
  by (simp add: RuneError_def RuneSelf_def)

lemma rune2_not_ascii: "inRange 0xC2 0xDF b0 \<Longrightarrow> \<not> (b0 mod 32) * 64 + x < RuneSelf"
  using lead2_mod [of b0] by (simp add: inRange_def RuneSelf_def)

lemma rune3_not_ascii:
  "inRange 0xE0 0xEF b0 \<Longrightarrow> b0 \<noteq> 0xE0 \<Longrightarrow> \<not> (b0 mod 16) * 4096 + x + y < RuneSelf"
  using lead3_mod [of b0] by (simp add: inRange_def RuneSelf_def)

lemma rune3_E0_not_ascii: "inRange 0xA0 0xBF b1 \<Longrightarrow> \<not> (b1 mod 64) * 64 + x < RuneSelf"
  using cont3_mod [of b1] by (simp add: inRange_def RuneSelf_def)

lemma rune4_not_ascii:
  "inRange 0xF0 0xF4 b0 \<Longrightarrow> b0 \<noteq> 0xF0 \<Longrightarrow> \<not> (b0 mod 8) * 262144 + x + y + z < RuneSelf"
  using lead4_mod [of b0] by (simp add: inRange_def RuneSelf_def)

lemma rune4_F0_not_ascii: "inRange 0x90 0xBF b1 \<Longrightarrow> \<not> (b1 mod 64) * 4096 + x + y < RuneSelf"
  using cont4_mod [of b1] by (simp add: inRange_def RuneSelf_def)

lemma DecodeRuneInString_not_ascii:
  assumes "\<not> byte c < RuneSelf"
  shows "\<not> fst (DecodeRuneInString (c # cs)) < RuneSelf"
proof -
  consider (two) "inRange 0xC2 0xDF (byte c)"
    | (three) "\<not> inRange 0xC2 0xDF (byte c)" "inRange 0xE0 0xEF (byte c)"
    | (four) "\<not> inRange 0xC2 0xDF (byte c)" "\<not> inRange 0xE0 0xEF (byte c)"
        "inRange 0xF0 0xF4 (byte c)"
    | (none) "\<not> inRange 0xC2 0xDF (byte c)" "\<not> inRange 0xE0 0xEF (byte c)"
        "\<not> inRange 0xF0 0xF4 (byte c)"
    by blast
  then show ?thesis
  proof cases
    case two
    then show ?thesis
      using assms rune2_not_ascii [OF two]
      by (simp add: DecodeRuneInString_def Let_def RuneError_not_ascii split: list.splits)
  next
    case three
    show ?thesis
    proof (cases "byte c = 0xE0")
      case True
      then show ?thesis
        using assms three
        by (simp add: DecodeRuneInString_def Let_def RuneError_not_ascii rune3_E0_not_ascii
            split: list.splits)
    next
      case False
      then show ?thesis
        using assms three rune3_not_ascii [OF three(2) False]
        by (simp add: DecodeRuneInString_def Let_def RuneError_not_ascii split: list.splits)
    qed
  next
    case four
    show ?thesis
    proof (cases "byte c = 0xF0")
      case True
      then show ?thesis
        using assms four
        by (simp add: DecodeRuneInString_def Let_def RuneError_not_ascii rune4_F0_not_ascii
            split: list.splits)
    next
      case False
      then show ?thesis
        using assms four rune4_not_ascii [OF four(3) False]
        by (simp add: DecodeRuneInString_def Let_def RuneError_not_ascii split: list.splits)
    qed
  next
    case none
    then show ?thesis
      using assms
      by (simp add: DecodeRuneInString_def Let_def RuneError_not_ascii)
  qed
qed

lemma needsQuoting_from_runes:
  "needsQuoting_from L s = list_ex (forcesQuoting L) (runes s)"
proof (induction L s rule: needsQuoting_from.induct)
  case (1 L)
  show ?case by simp
next
  case (2 L c cs)
  show ?case
  proof (cases "byte c < RuneSelf")
    case True
    then show ?thesis
      using "2.IH"(1) DecodeRuneInString_ascii [OF True, of cs]
      by (auto simp: forcesQuoting_def byte_def)
  next
    case False
    then show ?thesis
      using "2.IH"(2) DecodeRuneInString_not_ascii [OF False, of cs]
      by (auto simp: forcesQuoting_def)
  qed
qed

text \<open>
  C3 (as amended). \<open>needsQuoting\<close> returns true for the empty string, and otherwise
  exactly when the string contains a space, an \<open>=\<close>, an ASCII character other than the
  backslash that is outside the safe set, or, beyond ASCII, a rune that decodes to
  \<open>RuneError\<close>, is a space or is not printable.
\<close>

theorem needsQuoting_iff:
  "needsQuoting L [] = True \<and> needsQuoting L s = quotingRequired L s"
  by (cases s) (simp_all add: needsQuoting_def quotingRequired_def needsQuoting_from_runes)

text \<open>
  C3, as the claim states it, fails: the backslash is outside the safe set, and a
  string that is one backslash needs no quoting; the replacement character U+FFFD is
  printable and no space, and a string that holds it needs quoting.
\<close>

theorem needsQuoting_backslash_and_replacement:
  "safeSet (CHR 0x5C) = False
   \<and> needsQuoting exampleLib [CHR 0x5C] = False
   \<and> quotingRequired_spec exampleLib [CHR 0x5C] = True
   \<and> needsQuoting exampleLib [CHR 0xEF, CHR 0xBF, CHR 0xBD] = True
   \<and> quotingRequired_spec exampleLib [CHR 0xEF, CHR 0xBF, CHR 0xBD] = False"
  by (simp add: needsQuoting_def quotingRequired_spec_def forcesQuoting_spec_def byte_def
      RuneSelf_def RuneError_def safeSet_def safeTrue_def DecodeRuneInString_def inRange_def
      exampleLib_def char_of_def)

section \<open>The SQL trace block\<close>

text \<open>
  C4. When the context has a \<open>Sql\<close> value and a duration \<open>d\<close> under \<open>Duration\<close>, the SQL
  block starts with a newline and the duration in brackets, wrapped in green when
  \<open>d\<close> is at most the handler's \<open>slowThreshold\<close> (also when it is equal) and in red when
  it is greater; the row count and the statement follow.
\<close>

theorem appendSql_duration_colour:
  assumes "ctx Sql \<noteq> Nil" and "ctx Duration = DurationVal d"
  shows "appendSqlDuration L h ctx buf
           = buf @ (if d \<le> slowThreshold h then Green else Red)
             @ ''['' @ formatSeconds L d @ ''] '' @ Reset
    \<and> appendSql L h ctx lvl buf
           = buf @ [CHR 0x0A] @ (if d \<le> slowThreshold h then Green else Red)
             @ ''['' @ formatSeconds L d @ ''] '' @ Reset
             @ (if ctx Rows = Nil then [] else Yellow @ ''rows:'' @ Sprint_v L (ctx Rows) @ '' '' @ Reset)
             @ (if lvl = LevelError then Red else Magenta) @ Sprint_v L (ctx Sql) @ '' '' @ Reset
             @ [CHR 0x0A]"
  using assms by (simp add: appendSql_def appendSqlDuration_def Let_def)

theorem appendSql_duration_colour_witness:
  "slowThreshold (NewDevHandler plainOptions) = 1000000000
   \<and> appendSql exampleLib (NewDevHandler plainOptions) (traceContext 1000000000) LevelInfo []
      = [CHR 0x0A] @ Green @ ''[1.0000] '' @ Reset @ Yellow @ ''rows:3 '' @ Reset
        @ Magenta @ ''SELECT 1 '' @ Reset @ [CHR 0x0A]
   \<and> appendSql exampleLib (NewDevHandler plainOptions) (traceContext 1000000001) LevelInfo []
      = [CHR 0x0A] @ Red @ ''[1.0000] '' @ Reset @ Yellow @ ''rows:3 '' @ Reset
        @ Magenta @ ''SELECT 1 '' @ Reset @ [CHR 0x0A]
   \<and> appendSql exampleLib (NewDevHandler plainOptions) (traceContext 250000000) LevelInfo []
      = [CHR 0x0A] @ Green @ ''[0.2500] '' @ Reset @ Yellow @ ''rows:3 '' @ Reset
        @ Magenta @ ''SELECT 1 '' @ Reset @ [CHR 0x0A]"
  using appendSql_duration_colour [of "traceContext 1000000000" 1000000000 exampleLib
      "NewDevHandler plainOptions" "[]" LevelInfo]
    appendSql_duration_colour [of "traceContext 1000000001" 1000000001 exampleLib
      "NewDevHandler plainOptions" "[]" LevelInfo]
    appendSql_duration_colour [of "traceContext 250000000" 250000000 exampleLib
      "NewDevHandler plainOptions" "[]" LevelInfo]
  by (simp add: traceContext_def WithValue_def Background_def Sql_def Rows_def Duration_def
      NewDevHandler_def plainOptions_def Second_def exampleLib_def fourDecimals_def Itoa_def
      digitChar_def
      LevelInfo_def LevelError_def)

section \<open>Panics while a value is encoded\<close>

lemma appendAny_panic_cases:
  assumes "appendAny L b a q = Panicked b' msg"
  shows "(\<exists>nilptr v pv. a = TextMarshalerVal nilptr (MarshalPanic msg) v pv)
         \<or> (a = SourcePtr None \<and> msg = nilDereference)"
  using assms
  by (cases "(L, b, a, q)" rule: appendAny.cases) (auto split: marshalResult.splits)

lemma appendAny_panic_any_buffer:
  assumes "appendAny L b a q = Panicked b' msg"
  shows "appendAny L b2 a q2 = Panicked b2 msg"
  using appendAny_panic_cases [OF assms] by auto

lemma appendValue_recovers:
  assumes "appendAny L b a q = Panicked b' msg"
  shows "appendValue L buf (KindAny a) True
           = buf @ (if isNilPointer a then ''<nil>''
                    else restoreEsc (Quote L (''!PANIC: '' @ msg)))"
  using appendAny_panic_any_buffer [OF assms, of buf True]
  by (simp add: appendString_unquoted appendString_panic_marker [simplified])

text \<open>
  C5. Let the encoding of the value \<open>a\<close> of kind \<open>Any\<close> panic with the message \<open>msg\<close>.
  Then \<open>appendAttr\<close> writes the key, then exactly \<open><nil>\<close> when \<open>a\<close> is a nil pointer and
  otherwise the marker \<open>!PANIC: msg\<close> (as a quoted string), then the separator; the
  attributes after it are rendered from there on; and \<open>Handle\<close> on a record that holds
  such an attribute writes the line with its final newline, and returns nil when the
  sink works.
\<close>

theorem appendValue_panic_contained:
  assumes "appendAny L b a True = Panicked b' msg"
  shows "appendAttr L buf (Attr key (KindAny a)) gp gs
           = appendKey L buf key gp
             @ (if isNilPointer a then ''<nil>'' else restoreEsc (Quote L (''!PANIC: '' @ msg)))
             @ '' ''
    \<and> appendAttrs L buf (Attr key (KindAny a) # rest) gp gs
           = appendAttrs L
               (appendKey L buf key gp
                @ (if isNilPointer a then ''<nil>'' else restoreEsc (Quote L (''!PANIC: '' @ msg)))
                @ '' '')
               rest gp gs
    \<and> Handle L h ctx (r \<lparr>Attrs := pre @ Attr key (KindAny a) # rest\<rparr>) S
           = Write (w h)
               (butlast (render L h ctx (r \<lparr>Attrs := pre @ Attr key (KindAny a) # rest\<rparr>))
                @ [CHR 0x0A]) S
    \<and> (w h = WriterRef i \<and> failure (S i) = None \<longrightarrow>
          fst (Handle L h ctx (r \<lparr>Attrs := pre @ Attr key (KindAny a) # rest\<rparr>) S) = Result None)"
proof -
  have notzero: "\<not> isZeroAttr key (Resolve (KindAny a))"
    using appendAny_panic_cases [OF assms] by (auto simp: isZeroAttr_def)
  have noterr: "Resolve (KindAny a) \<noteq> KindAny (LogErrorVal err)" for err
    using appendAny_panic_cases [OF assms] by auto
  have notgroup: "Resolve (KindAny a) \<noteq> KindGroup as" for as
    by simp
  have one: "appendAttr L buf (Attr key (KindAny a)) gp gs
           = appendKey L buf key gp
             @ (if isNilPointer a then ''<nil>'' else restoreEsc (Quote L (''!PANIC: '' @ msg)))
             @ '' ''"
    using appendAttr_plain [OF notzero noterr notgroup, of L buf gp gs]
      appendValue_recovers [OF assms, of "appendKey L buf key gp"]
    by (simp del: appendValue.simps appendAttr.simps)
  have two: "appendAttrs L buf (Attr key (KindAny a) # rest) gp gs
           = appendAttrs L
               (appendKey L buf key gp
                @ (if isNilPointer a then ''<nil>'' else restoreEsc (Quote L (''!PANIC: '' @ msg)))
                @ '' '')
               rest gp gs"
    using one by (simp del: appendValue.simps appendAttr.simps)
  show ?thesis
    using one two Handle_writes_line [of L h ctx "r \<lparr>Attrs := pre @ Attr key (KindAny a) # rest\<rparr>" S]
      Write_working_sink [of S i]
    by (simp del: appendValue.simps appendAttr.simps appendAttrs.simps)
qed

theorem appendValue_panic_contained_witness:
  "appendAny exampleLib [] nilMarshaler True = Panicked [] nilDereference
   \<and> appendAny exampleLib [] failingMarshaler True = Panicked [] ''boom''
   \<and> appendAttrs exampleLib []
        [Attr ''a'' (KindAny nilMarshaler), Attr ''b'' (KindAny failingMarshaler),
         Attr ''n'' (KindInt64 7)] [] []
      = Faint @ ''a='' @ Reset @ ''<nil> ''
        @ Faint @ ''b='' @ Reset @ [CHR 0x22] @ ''!PANIC: boom'' @ [CHR 0x22] @ '' ''
        @ Faint @ ''n='' @ Reset @ ''7 ''
   \<and> Handle exampleLib (NewDevHandler plainOptions) Background
        (startedRecord \<lparr>Attrs := [] @ Attr ''a'' (KindAny nilMarshaler) # [Attr ''n'' (KindInt64 7)]\<rparr>)
        workingSinks
      = (Result None,
         workingSinks (0 := \<lparr>written =
             BrightGreen @ ''INFO'' @ Reset @ '' '' @ Cyan @ ''started'' @ Reset @ '' ''
             @ Faint @ ''a='' @ Reset @ ''<nil> '' @ Faint @ ''n='' @ Reset @ ''7'' @ [CHR 0x0A],
           failure = None\<rparr>))"
proof -
  have p1: "appendAny exampleLib [] nilMarshaler True = Panicked [] nilDereference"
    by (simp add: nilMarshaler_def)
  have p2: "appendAny exampleLib [] failingMarshaler True = Panicked [] ''boom''"
    by (simp add: failingMarshaler_def)
  have sink: "w (NewDevHandler plainOptions) = WriterRef 0 \<and> failure (workingSinks 0) = None"
    by (simp add: NewDevHandler_def plainOptions_def workingSinks_def)
  note first = appendValue_panic_contained [OF p1, where buf = "[]" and key = "''a''"
      and gp = "[]" and gs = "[]" and rest = "[Attr ''n'' (KindInt64 7)]"
      and h = "NewDevHandler plainOptions" and ctx = Background and r = startedRecord
      and pre = "[]" and S = workingSinks and i = 0]
  note second = appendValue_panic_contained [OF p2,
      where buf = "Faint @ ''a='' @ Reset @ ''<nil> ''" and key = "''b''"
      and gp = "[]" and gs = "[]" and rest = "[Attr ''n'' (KindInt64 7)]"
      and h = "NewDevHandler plainOptions" and ctx = Background and r = startedRecord
      and pre = "[]" and S = workingSinks and i = 0]
  have c3: "appendAttrs exampleLib []
        [Attr ''a'' (KindAny nilMarshaler), Attr ''b'' (KindAny failingMarshaler),
         Attr ''n'' (KindInt64 7)] [] []
      = Faint @ ''a='' @ Reset @ ''<nil> ''
        @ Faint @ ''b='' @ Reset @ [CHR 0x22] @ ''!PANIC: boom'' @ [CHR 0x22] @ '' ''
        @ Faint @ ''n='' @ Reset @ ''7 ''"
    by (simp add: eval_render eval_quote appendKey_eq nilMarshaler_def failingMarshaler_def)
  have c4: "Handle exampleLib (NewDevHandler plainOptions) Background
        (startedRecord \<lparr>Attrs := [] @ Attr ''a'' (KindAny nilMarshaler) # [Attr ''n'' (KindInt64 7)]\<rparr>)
        workingSinks
      = (Result None,
         workingSinks (0 := \<lparr>written =
             BrightGreen @ ''INFO'' @ Reset @ '' '' @ Cyan @ ''started'' @ Reset @ '' ''
             @ Faint @ ''a='' @ Reset @ ''<nil> '' @ Faint @ ''n='' @ Reset @ ''7'' @ [CHR 0x0A],
           failure = None\<rparr>))"
    by (simp add: Handle_def eval_render eval_colours eval_quote appendKey_eq startedRecord_def
        NewDevHandler_def plainOptions_def workingSinks_def nilMarshaler_def Write_def)
  show ?thesis
    using first second sink by (simp only: p1 p2 c3 c4 simp_thms)
qed

section \<open>Contexts without the recognised keys\<close>

text \<open>
  C6 (as amended). What \<open>Handle\<close> returns does not depend on the context: it is what it
  returns for the empty context, so no absent or mistyped key makes it fail or panic.
  Without a \<open>Sql\<close> value the SQL block is omitted; a value under \<open>Duration\<close> that is no
  duration leaves the duration out of the block, an absent \<open>Rows\<close> the row count; an
  absent key of \<open>addCxtAttr\<close> writes nothing. When the value under \<open>Source\<close> is absent or
  no \<open>slog.Source\<close>, the source block is not omitted: it is rendered from the frame of
  the record's program counter (if source resolution is on and the frame has a file).
\<close>

theorem Handle_tolerates_context:
  "fst (Handle L h ctx r S) = fst (Handle L h Background r S)
   \<and> (ctx Sql = Nil \<longrightarrow> appendSql L h ctx lvl buf = buf)
   \<and> ((\<forall>d. ctx Duration \<noteq> DurationVal d) \<longrightarrow> appendSqlDuration L h ctx buf = buf)
   \<and> (ctx Rows = Nil \<and> ctx Sql \<noteq> Nil \<longrightarrow>
        appendSql L h ctx lvl buf
          = appendSqlDuration L h ctx (buf @ [CHR 0x0A])
            @ (if lvl = LevelError then Red else Magenta) @ Sprint_v L (ctx Sql) @ '' '' @ Reset
            @ [CHR 0x0A])
   \<and> (ctx v = Nil \<longrightarrow> AddValueCtx_loop L ctx buf (v # vs) = AddValueCtx_loop L ctx buf vs)
   \<and> ((\<forall>c. ctx Source \<noteq> SourceVal c) \<longrightarrow>
        handleSource h ctx r buf
          = (if source h \<and> File (PC r) \<noteq> []
             then appendSource buf
                    \<lparr>Function = Function (PC r), File = File (PC r), Line = Line (PC r)\<rparr>
             else buf))"
proof -
  have result: "fst (Handle L h ctx r S) = fst (Handle L h Background r S)"
    by (simp only: Handle_writes_line)
       (rule Write_result)
  have duration: "(\<forall>d. ctx Duration \<noteq> DurationVal d) \<longrightarrow> appendSqlDuration L h ctx buf = buf"
    by (simp add: appendSqlDuration_def split: goany.splits)
  have src: "(\<forall>c. ctx Source \<noteq> SourceVal c) \<longrightarrow>
        handleSource h ctx r buf
          = (if source h \<and> File (PC r) \<noteq> []
             then appendSource buf
                    \<lparr>Function = Function (PC r), File = File (PC r), Line = Line (PC r)\<rparr>
             else buf)"
    by (simp add: handleSource_def Let_def split: goany.splits)
  show ?thesis
    using result duration src by (simp add: appendSql_def Let_def)
qed

theorem Handle_tolerates_context_witness:
  "fst (Handle exampleLib (NewDevHandler tracingOptions) malformedContext tracedRecord workingSinks)
     = Result None
   \<and> appendSql exampleLib (NewDevHandler tracingOptions) malformedContext LevelInfo ''x'' = ''x''
   \<and> appendSqlDuration exampleLib (NewDevHandler tracingOptions) malformedTrace ''x'' = ''x''
   \<and> appendSql exampleLib (NewDevHandler tracingOptions) malformedTrace LevelInfo ''x''
       = ''x'' @ [CHR 0x0A] @ Magenta @ ''SELECT 1 '' @ Reset @ [CHR 0x0A]
   \<and> AddValueCtx exampleLib (NewDevHandler tracingOptions) malformedContext ''x'' = ''x''
   \<and> handleSource (NewDevHandler tracingOptions) malformedContext tracedRecord ''x''
       = ''x'' @ Faint @ ''cmd/main.go:42'' @ Reset @ '' '' @ Blue @ ''run.func1'' @ Reset @ '' ''"
proof -
  note absent = Handle_tolerates_context [where L = exampleLib
      and h = "NewDevHandler tracingOptions" and ctx = malformedContext and r = tracedRecord
      and S = workingSinks and lvl = LevelInfo and buf = "''x''" and v = "''request_id''"
      and vs = "[]"]
  note traced = Handle_tolerates_context [where L = exampleLib
      and h = "NewDevHandler tracingOptions" and ctx = malformedTrace and r = tracedRecord
      and S = workingSinks and lvl = LevelInfo and buf = "''x''" and v = "''request_id''"
      and vs = "[]"]
  have c1: "fst (Handle exampleLib (NewDevHandler tracingOptions) malformedContext tracedRecord
      workingSinks) = Result None"
    by (simp add: Handle_writes_line Write_def NewDevHandler_def tracingOptions_def
        workingSinks_def)
  have c2: "appendSql exampleLib (NewDevHandler tracingOptions) malformedContext LevelInfo ''x''
      = ''x''"
    by (simp add: appendSql_def malformedContext_def WithValue_def Background_def
        Sql_def Duration_def Source_def)
  have c3: "appendSqlDuration exampleLib (NewDevHandler tracingOptions) malformedTrace ''x''
      = ''x''"
    by (simp add: appendSqlDuration_def malformedTrace_def malformedContext_def WithValue_def
        Background_def Sql_def Duration_def Source_def)
  have c4: "appendSql exampleLib (NewDevHandler tracingOptions) malformedTrace LevelInfo ''x''
       = ''x'' @ [CHR 0x0A] @ Magenta @ ''SELECT 1 '' @ Reset @ [CHR 0x0A]"
    by (simp add: appendSql_def appendSqlDuration_def malformedTrace_def malformedContext_def
        WithValue_def Background_def Sql_def Duration_def Source_def Rows_def
        LevelInfo_def LevelError_def)
  have c5: "AddValueCtx exampleLib (NewDevHandler tracingOptions) malformedContext ''x'' = ''x''"
    by (simp add: AddValueCtx_def NewDevHandler_def tracingOptions_def malformedContext_def
        WithValue_def Background_def Duration_def Source_def)
  have c6: "handleSource (NewDevHandler tracingOptions) malformedContext tracedRecord ''x''
       = ''x'' @ Faint @ ''cmd/main.go:42'' @ Reset @ '' '' @ Blue @ ''run.func1'' @ Reset @ '' ''"
    by (simp add: handleSource_def NewDevHandler_def tracingOptions_def malformedContext_def
        WithValue_def Background_def Duration_def Source_def tracedRecord_def eval_path
        Itoa_def digitChar_def)
  show ?thesis
    using absent traced by (simp only: c1 c2 c3 c4 c5 c6 simp_thms)
qed

text \<open>
  C6, as the claim states it, fails: with source resolution on and no value under
  \<open>Source\<close>, the line has a source block; it comes from the frame of the record.
\<close>

theorem render_source_block_without_source_key:
  "Background Source = Nil
   \<and> source (NewDevHandler tracingOptions) = True
   \<and> handleSource (NewDevHandler tracingOptions) Background tracedRecord []
      = Faint @ ''cmd/main.go:42'' @ Reset @ '' '' @ Blue @ ''run.func1'' @ Reset @ '' ''
   \<and> render exampleLib (NewDevHandler tracingOptions) Background tracedRecord
      = BrightGreen @ ''INFO'' @ Reset @ '' ''
        @ Faint @ ''cmd/main.go:42'' @ Reset @ '' '' @ Blue @ ''run.func1'' @ Reset @ '' ''
        @ Cyan @ ''started'' @ Reset @ '' ''"
  by (simp add: eval_render eval_path NewDevHandler_def tracingOptions_def tracedRecord_def)

section \<open>Function-name reduction\<close>

lemma Split_nonempty: "Split s c \<noteq> []"
  by (induction s) (auto split: list.splits)

lemma Split_append: "Split (p @ c # q) c = Split p c @ Split q c"
  by (induction p) (auto split: list.splits simp: Split_nonempty)

lemma getFuncNameSlog_loop_eq:
  "getFuncNameSlog_loop xs acc =
     (case dropWhile synthetic xs of [] \<Rightarrow> [] | h # _ \<Rightarrow> h)
     @ dottedSuffix (rev (takeWhile synthetic xs)) @ acc"
  by (induction xs arbitrary: acc) (auto simp: synthetic_def dottedSuffix_def)

lemma Split_method_closure:
  "Split (p @ ''.pkg.(*Type).Method.func1.1'') CHR ''.''
     = Split p CHR ''.'' @ [''pkg'', ''(*Type)'', ''Method'', ''func1'', ''1'']"
  using Split_append [of p "CHR ''.''" "''pkg.(*Type).Method.func1.1''"] by simp

text \<open>
  C7 (as amended). \<open>getFuncNameSlog\<close> splits the name on dots and, from the end, absorbs
  every segment that starts with \<open>func\<close> or that \<open>strconv.Atoi\<close> accepts (an optionally
  signed decimal integer that fits 64 bits) into a dotted suffix; the first other
  segment, if there is one, is the head of the result. A name that ends in
  \<open>.pkg.(*Type).Method.func1.1\<close> reduces to \<open>Method.func1.1\<close>.
\<close>

theorem getFuncNameSlog_reduction:
  "getFuncNameSlog s = reduction synthetic s
   \<and> getFuncNameSlog (p @ ''.pkg.(*Type).Method.func1.1'') = ''Method.func1.1''"
proof
  show "getFuncNameSlog s = reduction synthetic s"
    by (simp add: getFuncNameSlog_def reduction_def getFuncNameSlog_loop_eq Split_nonempty Let_def)
next
  show "getFuncNameSlog (p @ ''.pkg.(*Type).Method.func1.1'') = ''Method.func1.1''"
    by (simp add: getFuncNameSlog_def Let_def Split_method_closure eval_Atoi)
qed

text \<open>
  C7, as the claim states it, fails: the segment \<open>-1\<close> is not numeric-only and does not
  start with \<open>func\<close>, so by the specification's words it is the head of the display
  name; the code absorbs it, because \<open>strconv.Atoi\<close> accepts a sign.
\<close>

theorem getFuncNameSlog_signed_segment:
  "getFuncNameSlog ''pkg.f.-1'' = ''f.-1'' \<and> reduction_spec ''pkg.f.-1'' = ''-1''"
  by (simp add: getFuncNameSlog_def Let_def eval_Atoi
      reduction_spec_def reduction_def synthetic_spec_def numericOnly_def dottedSuffix_def)

section \<open>Derivation of the decorator\<close>

text \<open>
  C8. \<open>WithAttrs\<close> and \<open>WithGroup\<close> of the decorator return a decorator around the
  derived next handler, with the source flag off and no context keys, whatever the
  receiver had; the record such a decorator forwards is the record it got, with the
  \<open>Sql\<close> value of the context when there is one, and nothing else added.
\<close>

theorem mw_derived_carries_no_enrichment:
  "mw_WithAttrs nextWithAttrs m attrs
     = \<lparr>mw_source = False, mw_addCxtAttr = [], mw_next = nextWithAttrs (mw_next m) attrs\<rparr>
   \<and> mw_WithGroup nextWithGroup m name
     = \<lparr>mw_source = False, mw_addCxtAttr = [], mw_next = nextWithGroup (mw_next m) name\<rparr>
   \<and> enrich (mw_WithAttrs nextWithAttrs m attrs) ctx r
     = (if ctx Sql = Nil then r else Add r Sql (ctx Sql))
   \<and> enrich (mw_WithGroup nextWithGroup m name) ctx r
     = (if ctx Sql = Nil then r else Add r Sql (ctx Sql))
   \<and> mw_Handle nextHandle (mw_WithAttrs nextWithAttrs m attrs) ctx r
     = nextHandle (nextWithAttrs (mw_next m) attrs) ctx
         (if ctx Sql = Nil then r else Add r Sql (ctx Sql))
   \<and> mw_Handle nextHandle (mw_WithGroup nextWithGroup m name) ctx r
     = nextHandle (nextWithGroup (mw_next m) name) ctx
         (if ctx Sql = Nil then r else Add r Sql (ctx Sql))"
  by (simp add: mw_WithAttrs_def mw_WithGroup_def enrich_def mw_Handle_def Let_def)

section \<open>Group prefixes\<close>

text \<open>
  C9. For non-empty group names \<open>a\<close> and \<open>b\<close>, the handler \<open>h.WithGroup(a).WithGroup(b)\<close>
  has the group prefix of \<open>h\<close> followed by \<open>a.b.\<close> (for a handler from \<open>NewDevHandler\<close>:
  exactly \<open>a.b.\<close>), and a key it renders is written after that prefix.
\<close>

theorem WithGroup_prefix_composes:
  assumes "a \<noteq> []" and "b \<noteq> []"
  shows "groupPrefix (WithGroup (WithGroup h a) b) = groupPrefix h @ a @ ''.'' @ b @ ''.''
    \<and> groups (WithGroup (WithGroup h a) b) = groups h @ [a, b]
    \<and> groupPrefix (WithGroup (WithGroup (NewDevHandler opt) a) b) = a @ ''.'' @ b @ ''.''
    \<and> appendKey L buf key (groupPrefix (WithGroup (WithGroup h a) b))
        = buf @ Faint @ groupPrefix h @ a @ ''.'' @ b @ ''.'' @ key @ ''='' @ Reset
    \<and> appendAttrs L buf [Attr key (KindInt64 i)]
          (groupPrefix (WithGroup (WithGroup h a) b)) (groups (WithGroup (WithGroup h a) b))
        = buf @ Faint @ groupPrefix h @ a @ ''.'' @ b @ ''.'' @ key @ ''='' @ Reset
          @ Itoa i @ '' ''"
  using assms
  by (simp add: WithGroup_def clone_def Let_def NewDevHandler_def appendKey_eq isZeroAttr_def)

theorem WithGroup_prefix_composes_witness:
  "groupPrefix (WithGroup (WithGroup (NewDevHandler plainOptions) ''a'') ''b'') = ''a.b.''
   \<and> render exampleLib (WithGroup (WithGroup (NewDevHandler plainOptions) ''a'') ''b'') Background
        startedRecord
      = BrightGreen @ ''INFO'' @ Reset @ '' '' @ Cyan @ ''started'' @ Reset @ '' ''
        @ Faint @ ''a.b.k='' @ Reset @ ''1 ''"
  using WithGroup_prefix_composes [of "''a''" "''b''" "NewDevHandler plainOptions" plainOptions exampleLib
      "BrightGreen @ ''INFO'' @ Reset @ '' '' @ Cyan @ ''started'' @ Reset @ '' ''" "''k''" 1]
  by (simp add: eval_render startedRecord_def NewDevHandler_def plainOptions_def
      WithGroup_def clone_def appendKey_eq)

section \<open>Enabled\<close>

text \<open>
  C10. \<open>Enabled\<close> of the dev handler returns true for every handler, context and level:
  the level held in the handler's state never filters a record.
\<close>

theorem Enabled_always: "Enabled h ctx lvl = True"
  by (simp add: Enabled_def)

end
